theory Spec2Isabelle
  imports Complex_Main "HOL-Library.Multiset"
begin

section \<open>Data model of \<^verbatim>\<open>neuralprophet/plotting_utils.py\<close>\<close>

text \<open>
  The exceptions the module can surface. \<^verbatim>\<open>KeyError\<close>, \<^verbatim>\<open>AttributeError\<close> and
  \<^verbatim>\<open>IndexError\<close> come from pandas and numpy look-ups, \<^verbatim>\<open>TypeError\<close> from comparing
  \<^verbatim>\<open>None\<close> with an integer, \<^verbatim>\<open>AssertionError\<close> from the \<^verbatim>\<open>assert\<close> statement (assertions
  enabled, the interpreter's default), \<^verbatim>\<open>ValueError\<close> from matplotlib and pandas argument
  checks, \<^verbatim>\<open>DataError\<close> from pandas when asked to aggregate a column that is not numeric,
  and \<^verbatim>\<open>NotImplementedError\<close> from \<^verbatim>\<open>plot_custom_season\<close>.
\<close>

datatype error =
  KeyError | AttributeError | IndexError | TypeError | AssertionError | ValueError
  | DataError | NotImplementedError

text \<open>
  A forecast table is a pandas DataFrame: named columns over one shared row index.
  A column either holds timestamps (nanoseconds since the epoch, as pandas stores them)
  or floating-point values, where \<open>None\<close> stands for the null value NaN.
  Floating-point numbers are modelled by the reals: rounding is not part of the model.
\<close>

datatype column = Datetime "int list" | Numeric "real option list"

type_synonym dataframe = "(string \<times> column) list"

fun column_length :: "column \<Rightarrow> nat" where
  "column_length (Datetime ts) = length ts"
| "column_length (Numeric vs) = length vs"

text \<open>What a DataFrame guarantees by construction: distinct labels, one row count.\<close>

definition wf_dataframe :: "dataframe \<Rightarrow> bool" where
  "wf_dataframe fcst \<longleftrightarrow>
     distinct (map fst fcst) \<and>
     (\<forall>c \<in> set (map snd fcst). \<forall>d \<in> set (map snd fcst). column_length c = column_length d)"

definition columns :: "dataframe \<Rightarrow> string list" where
  "columns fcst = map fst fcst"

text \<open>\<^verbatim>\<open>fcst[name]\<close>: a missing label raises \<^verbatim>\<open>KeyError\<close>.\<close>

definition getitem :: "dataframe \<Rightarrow> string \<Rightarrow> error + column" where
  "getitem fcst name = (case map_of fcst name of None \<Rightarrow> Inl KeyError | Some c \<Rightarrow> Inr c)"

text \<open>\<^verbatim>\<open>series.dt.to_pydatetime()\<close>: the \<^verbatim>\<open>.dt\<close> accessor exists on datetime columns only.\<close>

fun dt_to_pydatetime :: "column \<Rightarrow> error + int list" where
  "dt_to_pydatetime (Datetime ts) = Inr ts"
| "dt_to_pydatetime (Numeric vs) = Inl AttributeError"

text \<open>The values matplotlib receives for a column used as y data.\<close>

fun as_values :: "column \<Rightarrow> real option list" where
  "as_values (Numeric vs) = vs"
| "as_values (Datetime ts) = map (\<lambda>t. Some (real_of_int t)) ts"

subsection \<open>Strings\<close>

text \<open>Strings are ASCII. \<^verbatim>\<open>str.lower\<close>, \<^verbatim>\<open>str.startswith\<close>, \<^verbatim>\<open>sub in s\<close>, \<^verbatim>\<open>'{}'.format(int)\<close>.\<close>

definition lower_char :: "char \<Rightarrow> char" where
  "lower_char c =
     (case map_of (zip ''ABCDEFGHIJKLMNOPQRSTUVWXYZ'' ''abcdefghijklmnopqrstuvwxyz'') c of
        None \<Rightarrow> c | Some d \<Rightarrow> d)"

definition lower :: "string \<Rightarrow> string" where
  "lower s = map lower_char s"

fun startswith :: "string \<Rightarrow> string \<Rightarrow> bool" where
  "startswith s [] = True"
| "startswith [] (p # ps) = False"
| "startswith (c # cs) (p # ps) = (c = p \<and> startswith cs ps)"

fun contains :: "string \<Rightarrow> string \<Rightarrow> bool" where
  "contains [] sub = (sub = [])"
| "contains (c # cs) sub = (startswith (c # cs) sub \<or> contains cs sub)"

fun str_nat :: "nat \<Rightarrow> string" where
  "str_nat n =
     (if n < 10 then [''0123456789'' ! n]
      else str_nat (n div 10) @ [''0123456789'' ! (n mod 10)])"

declare str_nat.simps [simp del]

definition str_int :: "int \<Rightarrow> string" where
  "str_int i = (if i < 0 then CHR ''-'' # str_nat (nat (- i)) else str_nat (nat i))"

subsection \<open>Axes and marks\<close>

text \<open>
  A matplotlib axes object is modelled by what the module does to it: the sequence of
  drawing calls (marks) in the order issued, later marks lying on top of earlier ones,
  the axis labels and whether the y ticks were relabelled as percentages.
  Tick locators, formatters and grid lines add no mark and are left out.
  Every function returns the axes it drew on; the artist handles the Python functions
  return are the handles of the marks appended.
\<close>

datatype style = Ls string | Fmt string

datatype mark =
  Plot (xdata: "int list") (ydata: "real option list") (style: style)
       (colour: "string option") (opacity: "real option")
| Bar (xdata: "int list") (ydata: "real option list") (width: real)
      (colour: "string option") (opacity: "real option")

record axes =
  marks :: "mark list"
  x_label :: string
  y_label :: string
  y_percent :: bool

definition new_axes :: axes where
  "new_axes = \<lparr>marks = [], x_label = [], y_label = [], y_percent = False\<rparr>"

text \<open>\<^verbatim>\<open>if not ax: fig = plt.figure(...); ax = fig.add_subplot(111)\<close>\<close>

definition ax_or_new :: "axes option \<Rightarrow> axes" where
  "ax_or_new ax = (case ax of None \<Rightarrow> new_axes | Some a \<Rightarrow> a)"

text \<open>
  A failing call leaves the axes as they were when the exception was raised, so a
  result is either the error together with those axes, or the axes after the call.
\<close>

type_synonym outcome = "(error \<times> axes) + axes"

text \<open>
  Sequencing: \<open>raising r ax f\<close> continues with the value of a look-up \<open>r\<close>, or stops
  with its exception on the axes \<open>ax\<close> as they are; \<open>and_then r f\<close> continues with
  the axes of a drawing step, or stops with its exception.
\<close>

definition raising :: "error + 'a \<Rightarrow> axes \<Rightarrow> ('a \<Rightarrow> outcome) \<Rightarrow> outcome" where
  "raising r ax f = (case r of Inl e \<Rightarrow> Inl (e, ax) | Inr v \<Rightarrow> f v)"

definition and_then :: "outcome \<Rightarrow> (axes \<Rightarrow> outcome) \<Rightarrow> outcome" where
  "and_then r f = (case r of Inl e \<Rightarrow> Inl e | Inr ax \<Rightarrow> f ax)"

text \<open>
  \<^verbatim>\<open>ax.plot(x, y, ...)\<close>: matplotlib raises \<^verbatim>\<open>ValueError\<close> unless x and y have the
  same first dimension.
\<close>

definition ax_plot ::
  "int list \<Rightarrow> real option list \<Rightarrow> style \<Rightarrow> string option \<Rightarrow> real option \<Rightarrow> axes \<Rightarrow> outcome" where
  "ax_plot x y st c a ax =
     (if length x = length y then Inr (ax\<lparr>marks := marks ax @ [Plot x y st c a]\<rparr>)
      else Inl (ValueError, ax))"

text \<open>
  \<^verbatim>\<open>ax.bar(x, height, ...)\<close>: matplotlib broadcasts x and height against each other
  (\<^verbatim>\<open>np.broadcast_arrays\<close>) and raises \<^verbatim>\<open>ValueError\<close> when the shapes do not broadcast:
  the lengths must agree, or one of them must be 1.
\<close>

definition broadcast :: "'a list \<Rightarrow> nat \<Rightarrow> 'a list" where
  "broadcast xs n = (if length xs = 1 then replicate n (hd xs) else xs)"

definition ax_bar ::
  "int list \<Rightarrow> real option list \<Rightarrow> real \<Rightarrow> string option \<Rightarrow> real option \<Rightarrow> axes \<Rightarrow> outcome" where
  "ax_bar x height w c a ax =
     (if length x = length height \<or> length x = 1 \<or> length height = 1
      then Inr (ax\<lparr>marks := marks ax @
                  [Bar (broadcast x (length height)) (broadcast height (length x)) w c a]\<rparr>)
      else Inl (ValueError, ax))"

text \<open>\<^verbatim>\<open>set_y_as_percent(ax)\<close> relabels the y ticks as percentages.\<close>

definition set_y_as_percent :: "axes \<Rightarrow> axes" where
  "set_y_as_percent ax = ax\<lparr>y_percent := True\<rparr>"

section \<open>\<^verbatim>\<open>plot_multiforecast_component\<close>\<close>

text \<open>
  \<^verbatim>\<open>fcst_t[notnull], y[notnull]\<close> with \<^verbatim>\<open>notnull = y.notnull()\<close>: the rows whose value is
  not null, as (timestamp, value) pairs in row order.
\<close>

definition notnull_rows :: "int list \<Rightarrow> real option list \<Rightarrow> (int \<times> real option) list" where
  "notnull_rows fcst_t y = filter (\<lambda>(t, v). v \<noteq> None) (zip fcst_t y)"

text \<open>
  \<^verbatim>\<open>alpha = alpha_min + alpha_softness*(1.0-alpha_min) / (i + 1.0*alpha_softness)\<close>
  with \<^verbatim>\<open>alpha_min = 0.2\<close> and \<^verbatim>\<open>alpha_softness = 1.2\<close>.
\<close>

definition overplot_alpha :: "nat \<Rightarrow> real" where
  "overplot_alpha i = 0.2 + 1.2 * (1.0 - 0.2) / (real i + 1.0 * 1.2)"

text \<open>One series of the component: bars of width 1.00 or a solid line.\<close>

definition draw_notnull ::
  "bool \<Rightarrow> int list \<Rightarrow> column \<Rightarrow> string \<Rightarrow> real option \<Rightarrow> axes \<Rightarrow> outcome" where
  "draw_notnull bar fcst_t y c a ax =
     (let rows = notnull_rows fcst_t (as_values y) in
      if bar then ax_bar (map fst rows) (map snd rows) 1.00 (Some c) a ax
      else ax_plot (map fst rows) (map snd rows) (Ls ''-'') (Some c) a ax)"

text \<open>The body of \<^verbatim>\<open>for i in list(range(num_overplot))[::-1]\<close>, over the indices left.\<close>

fun overplot_loop ::
  "dataframe \<Rightarrow> string \<Rightarrow> bool \<Rightarrow> int list \<Rightarrow> nat list \<Rightarrow> axes \<Rightarrow> outcome" where
  "overplot_loop fcst comp_name bar fcst_t [] ax = Inr ax"
| "overplot_loop fcst comp_name bar fcst_t (i # rest) ax =
     raising (getitem fcst (comp_name @ str_int (int i + 1))) ax (\<lambda>y.
     and_then (draw_notnull bar fcst_t y ''#0072B2'' (Some (overplot_alpha i)) ax)
       (overplot_loop fcst comp_name bar fcst_t rest))"

text \<open>
  \<^verbatim>\<open>num_overplot <= len(col_names)\<close>: ordering \<^verbatim>\<open>None\<close> against an \<^verbatim>\<open>int\<close> raises
  \<^verbatim>\<open>TypeError\<close>.
\<close>

definition le_len :: "int option \<Rightarrow> nat \<Rightarrow> error + bool" where
  "le_len num_overplot n =
     (case num_overplot of None \<Rightarrow> Inl TypeError | Some k \<Rightarrow> Inr (k \<le> int n))"

definition finish_component :: "string option \<Rightarrow> string \<Rightarrow> bool \<Rightarrow> axes \<Rightarrow> axes" where
  "finish_component plot_name comp_name multiplicative ax =
     (let ax1 = ax\<lparr>x_label := ''ds''\<rparr>;
          ax2 = ax1\<lparr>y_label := (case plot_name of None \<Rightarrow> comp_name | Some p \<Rightarrow> p)\<rparr>
      in if multiplicative then set_y_as_percent ax2 else ax2)"

definition plot_multiforecast_component ::
  "dataframe \<Rightarrow> string \<Rightarrow> string option \<Rightarrow> axes option \<Rightarrow> bool \<Rightarrow> bool \<Rightarrow> int \<Rightarrow>
   int option \<Rightarrow> outcome" where
  "plot_multiforecast_component fcst comp_name plot_name ax multiplicative bar focus
     num_overplot =
     (let ax0 = ax_or_new ax in
      raising (getitem fcst ''ds'') ax0 (\<lambda>ds.
      raising (dt_to_pydatetime ds) ax0 (\<lambda>fcst_t.
      let col_names = filter (\<lambda>col_name. startswith col_name comp_name) (columns fcst) in
      raising (le_len num_overplot (length col_names)) ax0 (\<lambda>holds.
      if \<not> holds then Inl (AssertionError, ax0) else
      and_then
        (case num_overplot of
           Some n \<Rightarrow> overplot_loop fcst comp_name bar fcst_t (rev [0..<nat n]) ax0
         | None \<Rightarrow> Inr ax0) (\<lambda>ax1.
      and_then
        (if num_overplot = None \<or> focus > 1 then
           raising (getitem fcst (comp_name @ str_int focus)) ax1 (\<lambda>y.
           draw_notnull bar fcst_t y ''b'' None ax1)
         else Inr ax1) (\<lambda>ax2.
      Inr (finish_component plot_name comp_name multiplicative ax2)))))))"

section \<open>\<^verbatim>\<open>plot\<close>: the composite forecast\<close>

text \<open>\<^verbatim>\<open>alpha=0.2 + 2.0/(i+2.5)\<close>\<close>

definition composite_alpha :: "nat \<Rightarrow> real" where
  "composite_alpha i = 0.2 + 2.0 / (real i + 2.5)"

text \<open>
  The body of \<^verbatim>\<open>for i in range(len(yhat_col_names))\<close>, over the indices left: the
  column is looked up by the name \<^verbatim>\<open>'yhat{}'.format(i + 1)\<close>, not by the name collected.
\<close>

fun yhat_loop :: "dataframe \<Rightarrow> int list \<Rightarrow> nat list \<Rightarrow> axes \<Rightarrow> outcome" where
  "yhat_loop fcst ds [] ax = Inr ax"
| "yhat_loop fcst ds (i # rest) ax =
     raising (getitem fcst (''yhat'' @ str_int (int i + 1))) ax (\<lambda>y.
     and_then (ax_plot ds (as_values y) (Ls ''-'') (Some ''#0072B2'')
                 (Some (composite_alpha i)) ax)
       (yhat_loop fcst ds rest))"

text \<open>
  The two marks of \<^verbatim>\<open>if highlight_forecast is not None\<close>: a solid line in colour
  \<^verbatim>\<open>'b'\<close>, then the markers of format \<^verbatim>\<open>'bx'\<close>.
\<close>

definition highlight :: "dataframe \<Rightarrow> int list \<Rightarrow> int \<Rightarrow> axes \<Rightarrow> outcome" where
  "highlight fcst ds h ax =
     raising (getitem fcst (''yhat'' @ str_int h)) ax (\<lambda>y.
     and_then (ax_plot ds (as_values y) (Ls ''-'') (Some ''b'') None ax) (\<lambda>ax'.
     raising (getitem fcst (''yhat'' @ str_int h)) ax' (\<lambda>y'.
     ax_plot ds (as_values y') (Fmt ''bx'') None None ax')))"

text \<open>
  \<^verbatim>\<open>plot(fcst, ax, xlabel, ylabel, highlight_forecast)\<close>. The echo of the table's tail
  on standard output draws nothing and is left out.
\<close>

definition plot ::
  "dataframe \<Rightarrow> axes option \<Rightarrow> string \<Rightarrow> string \<Rightarrow> int option \<Rightarrow> outcome" where
  "plot fcst ax xlabel ylabel highlight_forecast =
     (let ax0 = ax_or_new ax in
      raising (getitem fcst ''ds'') ax0 (\<lambda>c.
      raising (dt_to_pydatetime c) ax0 (\<lambda>ds.
      let yhat_col_names = filter (\<lambda>col_name. contains col_name ''yhat'') (columns fcst) in
      and_then (yhat_loop fcst ds [0..<length yhat_col_names] ax0) (\<lambda>ax1.
      and_then (case highlight_forecast of
                  None \<Rightarrow> Inr ax1
                | Some h \<Rightarrow> highlight fcst ds h ax1) (\<lambda>ax2.
      raising (getitem fcst ''y'') ax2 (\<lambda>y.
      and_then (ax_plot ds (as_values y) (Fmt ''k.'') None None ax2) (\<lambda>ax3.
      Inr (ax3\<lparr>x_label := xlabel, y_label := ylabel\<rparr>))))))))"

section \<open>\<^verbatim>\<open>plot_forecast_component\<close>\<close>

text \<open>
  \<^verbatim>\<open>series.rolling(window, min_periods=1, center=True).mean()\<close>, as pandas computes it.
  A window value is the mean of the observations (the values that are not null) in the
  window, and null when the window holds fewer than \<^verbatim>\<open>min_periods = 1\<close> of them.
\<close>

definition observations :: "real option list \<Rightarrow> real list" where
  "observations vs = map the (filter (\<lambda>v. v \<noteq> None) vs)"

definition window_mean :: "real option list \<Rightarrow> real option" where
  "window_mean vs =
     (let obs = observations vs in
      if length obs < 1 then None else Some (sum_list obs / real (length obs)))"

text \<open>The trailing window of \<open>w\<close> rows that ends at row \<open>j\<close>.\<close>

definition trailing_window :: "nat \<Rightarrow> 'a list \<Rightarrow> nat \<Rightarrow> 'a list" where
  "trailing_window w xs j = drop (j + 1 - w) (take (j + 1) xs)"

definition rolling_trailing_mean :: "nat \<Rightarrow> real option list \<Rightarrow> real option list" where
  "rolling_trailing_mean w xs = map (\<lambda>j. window_mean (trailing_window w xs j)) [0..<length xs]"

text \<open>
  With \<^verbatim>\<open>center=True\<close> pandas pads the values with \<^verbatim>\<open>offset = (window - 1) // 2\<close> nulls
  at the end, aggregates over trailing windows, and drops the first \<^verbatim>\<open>offset\<close> results.
  The constructor rejects a window below \<^verbatim>\<open>min_periods\<close>; the aggregation rejects a
  column that is not numeric.
\<close>

definition rolling_center_mean :: "column \<Rightarrow> int \<Rightarrow> error + real option list" where
  "rolling_center_mean y window =
     (if window < 1 then Inl ValueError
      else case y of
        Datetime ts \<Rightarrow> Inl DataError
      | Numeric vs \<Rightarrow>
          (let w = nat window; offset = (w - 1) div 2
           in Inr (drop offset (rolling_trailing_mean w (vs @ replicate offset None)))))"

text \<open>
  The reference the specification names: at row \<open>i\<close> the centered mean with minimum
  period 1 averages the observations of the rows \<open>j\<close> with
  \<open>i - w div 2 \<le> j \<le> i + (w - 1) div 2\<close> that exist, so the edges average fewer rows.
  For odd \<open>w\<close> the window is symmetric about \<open>i\<close>.
\<close>

definition centered_window :: "nat \<Rightarrow> 'a list \<Rightarrow> nat \<Rightarrow> 'a list" where
  "centered_window w xs i =
     map (\<lambda>j. xs ! j) (filter (\<lambda>j. i \<le> j + w div 2 \<and> j \<le> i + (w - 1) div 2) [0..<length xs])"

definition centered_mean_reference :: "nat \<Rightarrow> real option list \<Rightarrow> real option list" where
  "centered_mean_reference w xs = map (\<lambda>i. window_mean (centered_window w xs i)) [0..<length xs]"

text \<open>One series over every row: bars of width 1.00 or a solid line.\<close>

definition draw_series ::
  "bool \<Rightarrow> int list \<Rightarrow> real option list \<Rightarrow> real option \<Rightarrow> axes \<Rightarrow> outcome" where
  "draw_series bar fcst_t y a ax =
     (if bar then ax_bar fcst_t y 1.00 (Some ''#0072B2'') a ax
      else ax_plot fcst_t y (Ls ''-'') (Some ''#0072B2'') a ax)"

definition plot_forecast_component ::
  "dataframe \<Rightarrow> string \<Rightarrow> string option \<Rightarrow> axes option \<Rightarrow> bool \<Rightarrow> bool \<Rightarrow> int option \<Rightarrow>
   outcome" where
  "plot_forecast_component fcst comp_name plot_name ax multiplicative bar rolling =
     (let ax0 = ax_or_new ax in
      raising (getitem fcst ''ds'') ax0 (\<lambda>c.
      raising (dt_to_pydatetime c) ax0 (\<lambda>fcst_t.
      and_then (case rolling of
                  None \<Rightarrow> Inr ax0
                | Some window \<Rightarrow>
                    raising (getitem fcst comp_name) ax0 (\<lambda>y.
                    raising (rolling_center_mean y window) ax0 (\<lambda>rolling_avg.
                    draw_series bar fcst_t rolling_avg (Some 0.5) ax0))) (\<lambda>ax1.
      raising (getitem fcst comp_name) ax1 (\<lambda>y.
      and_then (draw_series bar fcst_t (as_values y) None ax1) (\<lambda>ax2.
      Inr (finish_component plot_name comp_name multiplicative ax2)))))))"

section \<open>Weight arrays and \<^verbatim>\<open>plot_lagged_weights\<close>\<close>

text \<open>
  A numpy array of weights: a vector, or a matrix given by its rows, all of one length.
  The model's AR and covariate weights have shape [horizon, lag]: one row per forecast
  horizon, one entry per lag.
\<close>

datatype ndarray = Vec "real list" | Mat "real list list"

fun row_length :: "real list list \<Rightarrow> nat" where
  "row_length [] = 0"
| "row_length (r # rows) = length r"

definition wf_matrix :: "real list list \<Rightarrow> bool" where
  "wf_matrix rows \<longleftrightarrow> (\<forall>r \<in> set rows. length r = row_length rows)"

text \<open>\<^verbatim>\<open>weights.shape[0]\<close>\<close>

fun shape0 :: "ndarray \<Rightarrow> nat" where
  "shape0 (Vec v) = length v"
| "shape0 (Mat rows) = length rows"

text \<open>
  \<^verbatim>\<open>np.sum(np.abs(weights), axis=0)\<close>: for a matrix the sum of absolute values down
  each column, for a vector the single sum of absolute values.
\<close>

fun sum_abs_axis0 :: "ndarray \<Rightarrow> real list" where
  "sum_abs_axis0 (Vec v) = [sum_list (map abs v)]"
| "sum_abs_axis0 (Mat rows) =
     map (\<lambda>j. sum_list (map (\<lambda>r. \<bar>r ! j\<bar>) rows)) [0..<row_length rows]"

text \<open>
  \<^verbatim>\<open>weights / np.sum(weights)\<close>: numpy divides elementwise and yields a value that is
  not finite, here \<open>None\<close>, where the total is zero.
\<close>

definition divide_by_sum :: "real list \<Rightarrow> real option list" where
  "divide_by_sum ws =
     (let total = sum_list ws in map (\<lambda>x. if total = 0 then None else Some (x / total)) ws)"

text \<open>
  \<^verbatim>\<open>if len(weights.shape) == 2: weights = weights[focus-1, :]\<close>: numpy counts a negative
  index from the end and raises \<^verbatim>\<open>IndexError\<close> outside \<open>-h \<le> i < h\<close>.
\<close>

fun focus_weights :: "ndarray \<Rightarrow> int \<Rightarrow> error + real list" where
  "focus_weights (Vec v) focus = Inr v"
| "focus_weights (Mat rows) focus =
     (let h = int (length rows); i = focus - 1; j = (if i < 0 then i + h else i)
      in if 0 \<le> j \<and> j < h then Inr (rows ! nat j) else Inl IndexError)"

definition plot_lagged_weights ::
  "ndarray \<Rightarrow> string \<Rightarrow> int option \<Rightarrow> axes option \<Rightarrow> outcome" where
  "plot_lagged_weights weights comp_name focus ax =
     (let ax0 = ax_or_new ax;
          n_lags = shape0 weights;
          lags_range = rev (map int [1..<1 + n_lags])
      in
      and_then (case focus of
                  None \<Rightarrow>
                    ax_bar lags_range (divide_by_sum (sum_abs_axis0 weights)) 1.00
                      (Some ''#0072B2'') None ax0
                | Some f \<Rightarrow>
                    raising (focus_weights weights f) ax0 (\<lambda>row.
                    ax_bar lags_range (map Some row) 0.80 (Some ''#0072B2'') None ax0)) (\<lambda>ax1.
      let ax2 = ax1\<lparr>x_label := comp_name @ '' lag number''\<rparr> in
      Inr (case focus of
             None \<Rightarrow> set_y_as_percent (ax2\<lparr>y_label := comp_name @ '' relevance''\<rparr>)
           | Some f \<Rightarrow> ax2\<lparr>y_label := comp_name @ '' weight ('' @ str_int f @ '')-ahead''\<rparr>)))"

section \<open>The fitted model and its parameter plots\<close>

text \<open>
  What the module reads from the fitted model \<^verbatim>\<open>m\<close>: its configuration, its learned
  weights (\<^verbatim>\<open>m.model...detach().numpy()\<close>), the time origin and scale of the training
  data (\<^verbatim>\<open>m.data_params['ds']\<close>) and the evaluator of seasonal components, which is
  given the timestamps of the \<^verbatim>\<open>ds\<close> column and returns a table or raises.
  \<^verbatim>\<open>season_config.periods\<close> maps a seasonality's name to its period; \<^verbatim>\<open>covar_config\<close>
  is given by its keys.
\<close>

record season_config =
  periods :: "(string \<times> real) list"
  mode :: string

record neural_prophet =
  n_changepoints :: int
  season_config :: "season_config option"
  n_lags :: int
  covar_config :: "string list option"
  ar_weights :: ndarray
  get_covar_weights :: "string \<Rightarrow> ndarray"
  get_trend_deltas :: "real list"
  trend_m0 :: real
  trend_k0 :: real
  ds_shift :: int
  ds_scale :: int
  predict_seasonal_components :: "int list \<Rightarrow> error + dataframe"

text \<open>\<^verbatim>\<open>m.season_config.mode\<close>: an attribute of \<^verbatim>\<open>None\<close> raises \<^verbatim>\<open>AttributeError\<close>.\<close>

definition season_mode :: "neural_prophet \<Rightarrow> error + string" where
  "season_mode m =
     (case season_config m of None \<Rightarrow> Inl AttributeError | Some sc \<Rightarrow> Inr (mode sc))"

text \<open>\<^verbatim>\<open>m.season_config.periods[name]['period'] == p\<close>\<close>

definition period_equals :: "neural_prophet \<Rightarrow> string \<Rightarrow> real \<Rightarrow> error + bool" where
  "period_equals m name p =
     (case season_config m of
        None \<Rightarrow> Inl AttributeError
      | Some sc \<Rightarrow>
          (case map_of (periods sc) name of None \<Rightarrow> Inl KeyError | Some q \<Rightarrow> Inr (q = p)))"

text \<open>Python's \<^verbatim>\<open>a or b\<close>: \<^verbatim>\<open>b\<close> is evaluated only when \<^verbatim>\<open>a\<close> is false.\<close>

definition py_or :: "bool \<Rightarrow> error + bool \<Rightarrow> error + bool" where
  "py_or a b = (if a then Inr True else b)"

text \<open>Midnight of 2017-01-01 and one day, in nanoseconds.\<close>

definition day_ns :: int where
  "day_ns = 86400 * 1000000000"

definition start_2017 :: int where
  "start_2017 = 17167 * day_ns"

definition percent_if_multiplicative :: "neural_prophet \<Rightarrow> axes \<Rightarrow> outcome" where
  "percent_if_multiplicative m ax =
     raising (season_mode m) ax (\<lambda>md.
     Inr (if md = ''multiplicative'' then set_y_as_percent ax else ax))"

definition plot_weekly :: "neural_prophet \<Rightarrow> axes option \<Rightarrow> int \<Rightarrow> string \<Rightarrow> outcome" where
  "plot_weekly m ax weekly_start comp_name =
     (let ax0 = ax_or_new ax;
          days = map (\<lambda>i. start_2017 + int i * day_ns + weekly_start * day_ns) [0..<7]
      in
      raising (predict_seasonal_components m days) ax0 (\<lambda>seas.
      raising (getitem seas comp_name) ax0 (\<lambda>y.
      and_then (ax_plot (map int [0..<length days]) (as_values y) (Ls ''-'')
                  (Some ''#0072B2'') None ax0) (\<lambda>ax1.
      percent_if_multiplicative m
        (ax1\<lparr>x_label := ''Day of week'', y_label := ''Seasonality: '' @ comp_name\<rparr>)))))"

definition plot_yearly :: "neural_prophet \<Rightarrow> axes option \<Rightarrow> int \<Rightarrow> string \<Rightarrow> outcome" where
  "plot_yearly m ax yearly_start comp_name =
     (let ax0 = ax_or_new ax;
          days = map (\<lambda>i. start_2017 + int i * day_ns + yearly_start * day_ns) [0..<365]
      in
      raising (predict_seasonal_components m days) ax0 (\<lambda>seas.
      raising (getitem seas comp_name) ax0 (\<lambda>y.
      and_then (ax_plot days (as_values y) (Ls ''-'') (Some ''#0072B2'') None ax0) (\<lambda>ax1.
      percent_if_multiplicative m
        (ax1\<lparr>x_label := ''Day of year'', y_label := ''Seasonality: '' @ comp_name\<rparr>)))))"

text \<open>\<^verbatim>\<open>def plot_custom_season(m, ax=None, comp_name=None): raise NotImplementedError\<close>\<close>

definition plot_custom_season ::
  "neural_prophet \<Rightarrow> axes option \<Rightarrow> string option \<Rightarrow> outcome" where
  "plot_custom_season m ax comp_name = Inl (NotImplementedError, ax_or_new ax)"

definition plot_trend_change :: "neural_prophet \<Rightarrow> axes option \<Rightarrow> string \<Rightarrow> outcome" where
  "plot_trend_change m ax plot_name =
     (let ax0 = ax_or_new ax;
          cp_range = map int [0..<nat (1 + n_changepoints m)];
          weights = get_trend_deltas m
      in
      and_then (ax_bar cp_range (map Some weights) 1.00 (Some ''#0072B2'') None ax0) (\<lambda>ax1.
      Inr (ax1\<lparr>x_label := ''Trend Segment'', y_label := plot_name\<rparr>)))"

definition plot_trend_0 :: "neural_prophet \<Rightarrow> axes option \<Rightarrow> string \<Rightarrow> outcome" where
  "plot_trend_0 m ax plot_name =
     (let ax0 = ax_or_new ax;
          t_start = ds_shift m;
          t_end = t_start + ds_scale m;
          fcst_t = [t_start, t_end];
          trend_0 = trend_m0 m;
          trend_1 = trend_0 + trend_k0 m
      in
      and_then (ax_plot fcst_t [Some trend_0, Some trend_1] (Ls ''-'') (Some ''#0072B2'')
                  None ax0) (\<lambda>ax1.
      Inr (ax1\<lparr>x_label := ''ds'', y_label := plot_name\<rparr>)))"

subsection \<open>\<^verbatim>\<open>plot_parameters\<close>\<close>

text \<open>
  A component descriptor is a dictionary with the key \<^verbatim>\<open>plot_name\<close> and, by kind, the
  keys \<^verbatim>\<open>comp_name\<close>, \<^verbatim>\<open>weights\<close> and \<^verbatim>\<open>focus\<close>. An absent \<^verbatim>\<open>comp_name\<close> or \<^verbatim>\<open>weights\<close>
  is \<open>None\<close>; \<^verbatim>\<open>focus\<close> is present whenever \<^verbatim>\<open>weights\<close> is, with \<open>None\<close> for Python's
  \<^verbatim>\<open>None\<close>.
\<close>

record component =
  key_plot_name :: string
  key_comp_name :: "string option"
  key_weights :: "ndarray option"
  key_focus :: "int option"

text \<open>\<^verbatim>\<open>comp[key]\<close>: an absent key raises \<^verbatim>\<open>KeyError\<close>.\<close>

definition key_lookup :: "'a option \<Rightarrow> error + 'a" where
  "key_lookup v = (case v of None \<Rightarrow> Inl KeyError | Some x \<Rightarrow> Inr x)"

definition lagged_weights_components ::
  "string \<Rightarrow> ndarray \<Rightarrow> int option \<Rightarrow> component list" where
  "lagged_weights_components name w forecast_in_focus =
     \<lparr>key_plot_name = ''lagged weights'', key_comp_name = Some name, key_weights = Some w,
      key_focus = None\<rparr> #
     (case forecast_in_focus of
        None \<Rightarrow> []
      | Some f \<Rightarrow>
          [\<lparr>key_plot_name = ''lagged weights'', key_comp_name = Some name,
            key_weights = Some w, key_focus = Some f\<rparr>])"

text \<open>The descriptor list as built before the test \<^verbatim>\<open>len(components) == 0\<close>.\<close>

definition configured_components :: "neural_prophet \<Rightarrow> int option \<Rightarrow> component list" where
  "configured_components m forecast_in_focus =
     (if n_changepoints m > 0
      then [\<lparr>key_plot_name = ''Trend changepoints'', key_comp_name = None,
             key_weights = None, key_focus = None\<rparr>]
      else []) @
     (case season_config m of
        None \<Rightarrow> []
      | Some sc \<Rightarrow>
          map (\<lambda>name. \<lparr>key_plot_name = ''seasonality'', key_comp_name = Some name,
                        key_weights = None, key_focus = None\<rparr>) (map fst (periods sc))) @
     (if n_lags m > 0
      then lagged_weights_components ''AR'' (ar_weights m) forecast_in_focus
      else []) @
     (case covar_config m of
        None \<Rightarrow> []
      | Some names \<Rightarrow>
          concat (map (\<lambda>name.
            lagged_weights_components (''COV '' @ [CHR 0x22] @ name @ [CHR 0x22])
              (get_covar_weights m name) forecast_in_focus) names))"

definition parameter_components :: "neural_prophet \<Rightarrow> int option \<Rightarrow> component list" where
  "parameter_components m forecast_in_focus =
     (let components = configured_components m forecast_in_focus
      in if length components = 0
         then components @ [\<lparr>key_plot_name = ''Trend'', key_comp_name = None,
                             key_weights = None, key_focus = None\<rparr>]
         else components)"

text \<open>The body of \<^verbatim>\<open>for ax, comp in zip(axes, components)\<close> for one panel.\<close>

definition plot_seasonality ::
  "neural_prophet \<Rightarrow> int \<Rightarrow> int \<Rightarrow> string \<Rightarrow> axes \<Rightarrow> outcome" where
  "plot_seasonality m weekly_start yearly_start name ax =
     raising (season_mode m) ax (\<lambda>md.
     raising (py_or (lower name = ''weekly'') (period_equals m name 7)) ax (\<lambda>weekly.
     if weekly then plot_weekly m (Some ax) weekly_start name
     else
     raising (py_or (lower name = ''yearly'') (period_equals m name 365.25)) ax (\<lambda>yearly.
     if yearly then plot_yearly m (Some ax) yearly_start name
     else plot_custom_season m (Some ax) (Some name))))"

definition plot_parameter_panel ::
  "neural_prophet \<Rightarrow> int \<Rightarrow> int \<Rightarrow> component \<Rightarrow> axes \<Rightarrow> outcome" where
  "plot_parameter_panel m weekly_start yearly_start descr ax =
     (let plot_name = lower (key_plot_name descr) in
      if startswith plot_name ''trend'' then
        (if contains plot_name ''changepoints''
         then plot_trend_change m (Some ax) (key_plot_name descr)
         else plot_trend_0 m (Some ax) (key_plot_name descr))
      else if startswith plot_name ''seasonality'' then
        raising (key_lookup (key_comp_name descr)) ax (\<lambda>name.
        plot_seasonality m weekly_start yearly_start name ax)
      else if plot_name = ''lagged weights'' then
        raising (key_lookup (key_weights descr)) ax (\<lambda>weights.
        raising (key_lookup (key_comp_name descr)) ax (\<lambda>comp_name.
        plot_lagged_weights weights comp_name (key_focus descr) (Some ax)))
      else Inr ax)"

text \<open>
  Whether the panel's axes are collected in \<^verbatim>\<open>multiplicative_axes\<close>, to be relabelled
  as percentages after the layout.
\<close>

definition multiplicative_panel :: "neural_prophet \<Rightarrow> component \<Rightarrow> bool" where
  "multiplicative_panel m descr \<longleftrightarrow>
     startswith (lower (key_plot_name descr)) ''seasonality'' \<and>
     season_mode m = Inr ''multiplicative''"

text \<open>The panels in order, each on fresh axes; the first exception ends the call.\<close>

fun plot_panels ::
  "neural_prophet \<Rightarrow> int \<Rightarrow> int \<Rightarrow> component list \<Rightarrow> error + axes list" where
  "plot_panels m weekly_start yearly_start [] = Inr []"
| "plot_panels m weekly_start yearly_start (descr # rest) =
     (case plot_parameter_panel m weekly_start yearly_start descr new_axes of
        Inl (e, ax) \<Rightarrow> Inl e
      | Inr ax \<Rightarrow>
          (case plot_panels m weekly_start yearly_start rest of
             Inl e \<Rightarrow> Inl e
           | Inr axs \<Rightarrow>
               Inr ((if multiplicative_panel m descr then set_y_as_percent ax else ax) # axs)))"

text \<open>\<^verbatim>\<open>plot_parameters\<close> returns the figure: its panels from top to bottom.\<close>

definition plot_parameters ::
  "neural_prophet \<Rightarrow> int option \<Rightarrow> int \<Rightarrow> int \<Rightarrow> error + axes list" where
  "plot_parameters m forecast_in_focus weekly_start yearly_start =
     plot_panels m weekly_start yearly_start (parameter_components m forecast_in_focus)"

section \<open>Notions used to state the properties\<close>

text \<open>The mark of one series of a component: bars of width 1.00, or a solid line.\<close>

definition series_mark ::
  "bool \<Rightarrow> (int \<times> real option) list \<Rightarrow> string \<Rightarrow> real option \<Rightarrow> mark" where
  "series_mark bar rows c a =
     (if bar then Bar (map fst rows) (map snd rows) 1.00 (Some c) a
      else Plot (map fst rows) (map snd rows) (Ls ''-'') (Some c) a)"

text \<open>The axes a call leaves behind, whether it returned or raised.\<close>

definition axes_of :: "outcome \<Rightarrow> axes" where
  "axes_of r = (case r of Inl (e, ax) \<Rightarrow> ax | Inr ax \<Rightarrow> ax)"

text \<open>
  A mark is the series of a horizon of the component when it pairs exactly the rows
  of a column \<^verbatim>\<open>'{}{}'.format(comp_name, k)\<close> whose value is not null, in row order.
\<close>

definition notnull_series :: "dataframe \<Rightarrow> string \<Rightarrow> int list \<Rightarrow> mark \<Rightarrow> bool" where
  "notnull_series fcst comp_name t m \<longleftrightarrow>
     (\<exists>k y. getitem fcst (comp_name @ str_int k) = Inr y \<and>
        length (xdata m) = length (ydata m) \<and> None \<notin> set (ydata m) \<and>
        zip (xdata m) (ydata m) = filter (\<lambda>(t, v). v \<noteq> None) (zip t (as_values y)))"

subsection \<open>Example inputs\<close>

text \<open>
  A forecast table of five daily rows with one step-ahead forecast, the scenario of the
  specification: \<^verbatim>\<open>y = [1,2,3,4,5]\<close>, \<^verbatim>\<open>yhat1 = [1.1,2.1,3.1,4.1,5.1]\<close>.
\<close>

definition fcst_yhat1 :: dataframe where
  "fcst_yhat1 =
     [(''ds'', Datetime [0, 1, 2, 3, 4]),
      (''y'', Numeric [Some 1, Some 2, Some 3, Some 4, Some 5]),
      (''yhat1'', Numeric [Some 1.1, Some 2.1, Some 3.1, Some 4.1, Some 5.1])]"

text \<open>
  A table with two autoregression horizons, null where a horizon has no forecast, and
  a residual column with nulls at both ends.
\<close>

definition fcst_ar :: dataframe where
  "fcst_ar =
     [(''ds'', Datetime [1, 2, 3]),
      (''ar1'', Numeric [Some 1, None, Some 3]),
      (''ar2'', Numeric [None, Some 2, Some 5])]"

definition fcst_residuals :: dataframe where
  "fcst_residuals =
     [(''ds'', Datetime [0, 1, 2, 3, 4]),
      (''residuals'', Numeric [None, Some 1, Some 2, Some 6, None])]"

text \<open>Weights of three horizons over four lags, some of them negative.\<close>

definition weights_3x4 :: ndarray where
  "weights_3x4 = Mat [[1, -2, 3, 4], [-1, 0, 2, -1], [2, 2, -1, 3]]"

text \<open>
  A model without changepoints, lags and covariates and with three seasonalities, and
  the same model without seasonalities.
\<close>

definition model_seasonal :: neural_prophet where
  "model_seasonal =
     \<lparr>n_changepoints = 0,
      season_config = Some \<lparr>periods = [(''weekly'', 7), (''annual'', 365.25), (''monthly'', 30.5)],
                            mode = ''additive''\<rparr>,
      n_lags = 0, covar_config = None, ar_weights = Vec [],
      get_covar_weights = (\<lambda>name. Vec []), get_trend_deltas = [0],
      trend_m0 = 0.5, trend_k0 = 0.25, ds_shift = 100, ds_scale = 50,
      predict_seasonal_components = (\<lambda>days. Inr [(''ds'', Datetime days)])\<rparr>"

definition model_bare :: neural_prophet where
  "model_bare = model_seasonal\<lparr>season_config := None\<rparr>"

section \<open>Properties of \<^verbatim>\<open>plot_multiforecast_component\<close>\<close>

lemma broadcast_same: "length xs = n \<Longrightarrow> broadcast xs n = xs"
  by (cases xs) (auto simp: broadcast_def)

lemma draw_notnull_eq:
  "draw_notnull bar t y c a ax =
     Inr (ax\<lparr>marks := marks ax @ [series_mark bar (notnull_rows t (as_values y)) c a]\<rparr>)"
  by (simp add: draw_notnull_def Let_def ax_bar_def ax_plot_def series_mark_def broadcast_same)

text \<open>A loop that returns has drawn one series per index, in the order of the indices.\<close>

lemma overplot_loop_Inr:
  "overplot_loop fcst cn bar t js ax = Inr ax' \<Longrightarrow>
   \<exists>ms. ax' = ax\<lparr>marks := marks ax @ ms\<rparr> \<and> length ms = length js \<and>
     (\<forall>k < length js. \<exists>y. getitem fcst (cn @ str_int (int (js ! k) + 1)) = Inr y \<and>
        ms ! k = series_mark bar (notnull_rows t (as_values y)) ''#0072B2''
                   (Some (overplot_alpha (js ! k))))"
proof (induction js arbitrary: ax)
  case Nil
  then show ?case by simp
next
  case (Cons j js)
  from Cons.prems obtain y where y: "getitem fcst (cn @ str_int (int j + 1)) = Inr y"
    by (cases "getitem fcst (cn @ str_int (int j + 1))") (auto simp: raising_def)
  define m where
    "m = series_mark bar (notnull_rows t (as_values y)) ''#0072B2'' (Some (overplot_alpha j))"
  define ax1 where "ax1 = ax\<lparr>marks := marks ax @ [m]\<rparr>"
  from Cons.prems y have "overplot_loop fcst cn bar t js ax1 = Inr ax'"
    by (simp add: raising_def and_then_def draw_notnull_eq ax1_def m_def)
  from Cons.IH[OF this] obtain ms where ms: "ax' = ax1\<lparr>marks := marks ax1 @ ms\<rparr>"
    "length ms = length js"
    "\<forall>k < length js. \<exists>y. getitem fcst (cn @ str_int (int (js ! k) + 1)) = Inr y \<and>
        ms ! k = series_mark bar (notnull_rows t (as_values y)) ''#0072B2''
                   (Some (overplot_alpha (js ! k)))"
    by blast
  have "ax' = ax\<lparr>marks := marks ax @ (m # ms)\<rparr>" using ms(1) by (simp add: ax1_def)
  moreover have "length (m # ms) = length (j # js)" using ms(2) by simp
  moreover have "\<forall>k < length (j # js).
      \<exists>y. getitem fcst (cn @ str_int (int ((j # js) ! k) + 1)) = Inr y \<and>
        (m # ms) ! k = series_mark bar (notnull_rows t (as_values y)) ''#0072B2''
                   (Some (overplot_alpha ((j # js) ! k)))"
  proof (intro allI impI)
    fix k assume "k < length (j # js)"
    then show "\<exists>y. getitem fcst (cn @ str_int (int ((j # js) ! k) + 1)) = Inr y \<and>
        (m # ms) ! k = series_mark bar (notnull_rows t (as_values y)) ''#0072B2''
                   (Some (overplot_alpha ((j # js) ! k)))"
      using y ms(3) by (cases k) (auto simp: m_def)
  qed
  ultimately show ?case by blast
qed

lemma series_mark_notnull:
  "getitem fcst (cn @ str_int k) = Inr y \<Longrightarrow>
   notnull_series fcst cn t (series_mark bar (notnull_rows t (as_values y)) c a)"
  unfolding notnull_series_def
  by (rule exI[of _ k], rule exI[of _ y])
     (auto simp: series_mark_def notnull_rows_def zip_map_fst_snd)

text \<open>Whether the loop returns or raises, what it drew are the series of its indices.\<close>

lemma series_mark_data:
  "length (xdata (series_mark bar (notnull_rows t vs) c a)) =
     length (ydata (series_mark bar (notnull_rows t vs) c a)) \<and>
   None \<notin> set (ydata (series_mark bar (notnull_rows t vs) c a)) \<and>
   zip (xdata (series_mark bar (notnull_rows t vs) c a))
       (ydata (series_mark bar (notnull_rows t vs) c a)) =
     filter (\<lambda>(t, v). v \<noteq> None) (zip t vs)"
  by (auto simp: series_mark_def notnull_rows_def zip_map_fst_snd)

lemma overplot_loop_drawn:
  "\<exists>ms. marks (axes_of (overplot_loop fcst cn bar t js ax)) = marks ax @ ms \<and>
     length ms \<le> length js \<and>
     (\<forall>p < length ms. \<exists>y. getitem fcst (cn @ str_int (int (js ! p) + 1)) = Inr y \<and>
        ms ! p = series_mark bar (notnull_rows t (as_values y)) ''#0072B2''
                   (Some (overplot_alpha (js ! p)))) \<and>
     (\<forall>ax'. overplot_loop fcst cn bar t js ax = Inr ax' \<longrightarrow> length ms = length js)"
proof (induction js arbitrary: ax)
  case Nil
  then show ?case by (simp add: axes_of_def)
next
  case (Cons j js)
  show ?case
  proof (cases "getitem fcst (cn @ str_int (int j + 1))")
    case (Inl e)
    then show ?thesis by (intro exI[of _ "[]"]) (simp add: raising_def axes_of_def)
  next
    case (Inr y)
    define m where
      "m = series_mark bar (notnull_rows t (as_values y)) ''#0072B2'' (Some (overplot_alpha j))"
    define ax1 where "ax1 = ax\<lparr>marks := marks ax @ [m]\<rparr>"
    have eq: "overplot_loop fcst cn bar t (j # js) ax = overplot_loop fcst cn bar t js ax1"
      using Inr by (simp add: raising_def and_then_def draw_notnull_eq ax1_def m_def)
    from Cons.IH[of ax1] obtain ms where ms:
      "marks (axes_of (overplot_loop fcst cn bar t js ax1)) = marks ax1 @ ms"
      "length ms \<le> length js"
      "\<forall>p < length ms. \<exists>y. getitem fcst (cn @ str_int (int (js ! p) + 1)) = Inr y \<and>
        ms ! p = series_mark bar (notnull_rows t (as_values y)) ''#0072B2''
                   (Some (overplot_alpha (js ! p)))"
      "\<forall>ax'. overplot_loop fcst cn bar t js ax1 = Inr ax' \<longrightarrow> length ms = length js"
      by blast
    have "marks (axes_of (overplot_loop fcst cn bar t (j # js) ax)) = marks ax @ (m # ms)"
      using eq ms(1) by (simp add: ax1_def)
    moreover have "length (m # ms) \<le> length (j # js)" using ms(2) by simp
    moreover have "\<forall>p < length (m # ms).
        \<exists>y. getitem fcst (cn @ str_int (int ((j # js) ! p) + 1)) = Inr y \<and>
        (m # ms) ! p = series_mark bar (notnull_rows t (as_values y)) ''#0072B2''
                   (Some (overplot_alpha ((j # js) ! p)))"
    proof (intro allI impI)
      fix p assume "p < length (m # ms)"
      then show "\<exists>y. getitem fcst (cn @ str_int (int ((j # js) ! p) + 1)) = Inr y \<and>
        (m # ms) ! p = series_mark bar (notnull_rows t (as_values y)) ''#0072B2''
                   (Some (overplot_alpha ((j # js) ! p)))"
        using Inr ms(3) by (cases p) (auto simp: m_def)
    qed
    moreover have "\<forall>ax'. overplot_loop fcst cn bar t (j # js) ax = Inr ax' \<longrightarrow>
        length (m # ms) = length (j # js)"
      using eq ms(4) by simp
    ultimately show ?thesis by blast
  qed
qed

lemma marks_finish_component [simp]:
  "marks (finish_component pn cn mlt ax) = marks ax"
  by (simp add: finish_component_def Let_def set_y_as_percent_def)

text \<open>The function by the shape of the \<^verbatim>\<open>ds\<close> column and of \<^verbatim>\<open>num_overplot\<close>.\<close>

lemma pmc_no_ds:
  "getitem fcst ''ds'' = Inl e \<Longrightarrow>
   plot_multiforecast_component fcst cn pn ax mlt bar focus num = Inl (e, ax_or_new ax)"
  by (simp add: plot_multiforecast_component_def raising_def)

lemma pmc_ds_numeric:
  "getitem fcst ''ds'' = Inr (Numeric vs) \<Longrightarrow>
   plot_multiforecast_component fcst cn pn ax mlt bar focus num
     = Inl (AttributeError, ax_or_new ax)"
  by (simp add: plot_multiforecast_component_def raising_def)

lemma pmc_None:
  "getitem fcst ''ds'' = Inr (Datetime t) \<Longrightarrow>
   plot_multiforecast_component fcst cn pn ax mlt bar focus None
     = Inl (TypeError, ax_or_new ax)"
  by (simp add: plot_multiforecast_component_def raising_def le_len_def)

lemma pmc_Some:
  "getitem fcst ''ds'' = Inr (Datetime t) \<Longrightarrow>
   plot_multiforecast_component fcst cn pn ax mlt bar focus (Some n) =
     (if \<not> n \<le> int (length (filter (\<lambda>col_name. startswith col_name cn) (columns fcst)))
      then Inl (AssertionError, ax_or_new ax)
      else and_then (overplot_loop fcst cn bar t (rev [0..<nat n]) (ax_or_new ax)) (\<lambda>ax1.
           and_then (if focus > 1 then
                       raising (getitem fcst (cn @ str_int focus)) ax1 (\<lambda>y.
                         draw_notnull bar t y ''b'' None ax1)
                     else Inr ax1) (\<lambda>ax2.
           Inr (finish_component pn cn mlt ax2))))"
  by (simp add: plot_multiforecast_component_def raising_def le_len_def Let_def)

lemma ds_cases:
  obtains e where "getitem fcst ''ds'' = Inl e"
  | vs where "getitem fcst ''ds'' = Inr (Numeric vs)"
  | t where "getitem fcst ''ds'' = Inr (Datetime t)"
proof (cases "getitem fcst ''ds''")
  case (Inl e) then show ?thesis using that by blast
next
  case (Inr c) then show ?thesis using that by (cases c) blast+
qed

lemma focus_step:
  "\<exists>ms. marks (axes_of (and_then
        (if c then raising (getitem fcst (cn @ str_int k)) ax1
                     (\<lambda>y. draw_notnull bar t y col a ax1)
         else Inr ax1)
        (\<lambda>ax2. Inr (finish_component pn cn mlt ax2)))) = marks ax1 @ ms \<and>
      length ms \<le> 1 \<and> (\<not> c \<longrightarrow> ms = []) \<and> (\<forall>m \<in> set ms. notnull_series fcst cn t m)"
proof (cases "c \<and> (\<exists>y. getitem fcst (cn @ str_int k) = Inr y)")
  case True
  then obtain y where y: "getitem fcst (cn @ str_int k) = Inr y" and c by blast
  have "notnull_series fcst cn t (series_mark bar (notnull_rows t (as_values y)) col a)"
    by (rule series_mark_notnull[OF y])
  then show ?thesis using y \<open>c\<close>
    by (intro exI[of _ "[series_mark bar (notnull_rows t (as_values y)) col a]"])
       (simp add: raising_def and_then_def draw_notnull_eq axes_of_def)
next
  case False
  then show ?thesis
    by (cases "getitem fcst (cn @ str_int k)")
       (auto simp: raising_def and_then_def axes_of_def)
qed

lemma overplot_alpha_closed: "overplot_alpha i = 0.2 + 1.2 * 0.8 / (real i + 1.2)"
  by (simp add: overplot_alpha_def)

lemma overplot_alpha_strict: "i < j \<Longrightarrow> overplot_alpha j < overplot_alpha i"
  by (simp add: overplot_alpha_def frac_less2)

lemma run_fcst_ar:
  "plot_multiforecast_component fcst_ar ''ar'' None None False True 2 (Some 2) =
     Inr \<lparr>marks = [Bar [2, 3] [Some 2, Some 5] 1 (Some ''#0072B2'') (Some (7 / 11)),
                   Bar [1, 3] [Some 1, Some 3] 1 (Some ''#0072B2'') (Some 1),
                   Bar [2, 3] [Some 2, Some 5] 1 (Some ''b'') None],
          x_label = ''ds'', y_label = ''ar'', y_percent = False\<rparr>"
  by (simp add: plot_multiforecast_component_def fcst_ar_def getitem_def raising_def
        and_then_def columns_def le_len_def Let_def str_int_def str_nat.simps draw_notnull_def
        notnull_rows_def ax_bar_def broadcast_def overplot_alpha_def finish_component_def
        ax_or_new_def new_axes_def upt_conv_Cons)

lemma ds_fcst_ar: "getitem fcst_ar ''ds'' = Inr (Datetime [1, 2, 3])"
  by (simp add: fcst_ar_def getitem_def)

lemma overplot_loop_returns:
  "\<forall>j \<in> set js. \<exists>y. getitem fcst (cn @ str_int (int j + 1)) = Inr y \<Longrightarrow>
   \<exists>ax'. overplot_loop fcst cn bar t js ax = Inr ax'"
proof (induction js arbitrary: ax)
  case Nil
  then show ?case by simp
next
  case (Cons j js)
  from Cons.prems obtain y where y: "getitem fcst (cn @ str_int (int j + 1)) = Inr y"
    by auto
  from Cons.prems have "\<forall>j \<in> set js. \<exists>y. getitem fcst (cn @ str_int (int j + 1)) = Inr y"
    by simp
  from Cons.IH[OF this] y show ?case
    by (simp add: raising_def and_then_def draw_notnull_eq)
qed

text \<open>The call returns when the precondition holds and every column it reads exists.\<close>

lemma multiforecast_returns:
  assumes ds: "getitem fcst ''ds'' = Inr (Datetime t)"
    and n: "n \<le> int (length (filter (\<lambda>col_name. startswith col_name cn) (columns fcst)))"
    and cols: "\<forall>i < nat n. \<exists>y. getitem fcst (cn @ str_int (int i + 1)) = Inr y"
    and foc: "focus > 1 \<longrightarrow> (\<exists>y. getitem fcst (cn @ str_int focus) = Inr y)"
  shows "\<exists>ax'. plot_multiforecast_component fcst cn pn ax mlt bar focus (Some n) = Inr ax'"
proof -
  have "\<forall>j \<in> set (rev [0..<nat n]). \<exists>y. getitem fcst (cn @ str_int (int j + 1)) = Inr y"
    using cols by simp
  from overplot_loop_returns[OF this, of bar t "ax_or_new ax"] obtain ax1 where
    loop: "overplot_loop fcst cn bar t (rev [0..<nat n]) (ax_or_new ax) = Inr ax1" by blast
  show ?thesis
  proof (cases "focus > 1")
    case True
    with foc obtain y where "getitem fcst (cn @ str_int focus) = Inr y" by blast
    with True n loop show ?thesis
      by (simp add: pmc_Some[OF ds] and_then_def raising_def draw_notnull_eq)
  next
    case False
    with n loop show ?thesis by (simp add: pmc_Some[OF ds] and_then_def)
  qed
qed

lemma multiforecast_drawn:
  "\<exists>drawn.
     marks (axes_of (plot_multiforecast_component fcst comp_name plot_name ax
                       multiplicative bar focus num_overplot))
       = marks (ax_or_new ax) @ drawn \<and>
     (\<forall>p < length drawn. \<exists>fcst_t y.
        getitem fcst ''ds'' = Inr (Datetime fcst_t) \<and>
        getitem fcst (comp_name @ str_int
          (if p < (case num_overplot of None \<Rightarrow> 0 | Some n \<Rightarrow> nat n)
           then int ((case num_overplot of None \<Rightarrow> 0 | Some n \<Rightarrow> nat n) - p)
           else focus)) = Inr y \<and>
        length (xdata (drawn ! p)) = length (ydata (drawn ! p)) \<and>
        None \<notin> set (ydata (drawn ! p)) \<and>
        zip (xdata (drawn ! p)) (ydata (drawn ! p)) =
          filter (\<lambda>(t, v). v \<noteq> None) (zip fcst_t (as_values y))) \<and>
     (\<forall>ax'. plot_multiforecast_component fcst comp_name plot_name ax multiplicative bar focus
              num_overplot = Inr ax' \<longrightarrow>
        length drawn = (case num_overplot of None \<Rightarrow> 0 | Some n \<Rightarrow> nat n) +
                       (if focus > 1 then 1 else 0))"
  (is "\<exists>drawn. ?M drawn \<and> ?D drawn \<and> ?L drawn")
proof (rule ds_cases[of fcst])
  fix e assume "getitem fcst ''ds'' = Inl e"
  then show ?thesis by (intro exI[of _ "[]"]) (simp add: pmc_no_ds axes_of_def)
next
  fix vs assume "getitem fcst ''ds'' = Inr (Numeric vs)"
  then show ?thesis by (intro exI[of _ "[]"]) (simp add: pmc_ds_numeric axes_of_def)
next
  fix t assume ds: "getitem fcst ''ds'' = Inr (Datetime t)"
  show ?thesis
  proof (cases num_overplot)
    case None
    then show ?thesis using ds by (intro exI[of _ "[]"]) (simp add: pmc_None axes_of_def)
  next
    case (Some n)
    let ?N = "nat n"
    let ?js = "rev [0..<?N]"
    let ?call = "plot_multiforecast_component fcst comp_name plot_name ax multiplicative bar
                   focus num_overplot"
    have idx: "int (?js ! p) + 1 = int (?N - p)" if "p < ?N" for p
      using that by (simp add: rev_nth)
    show ?thesis
    proof (cases "n \<le> int (length (filter (\<lambda>col_name. startswith col_name comp_name)
                                   (columns fcst)))")
      case False
      then show ?thesis using Some
        by (intro exI[of _ "[]"]) (simp add: pmc_Some[OF ds] axes_of_def)
    next
      case True
      let ?loop = "overplot_loop fcst comp_name bar t ?js (ax_or_new ax)"
      from overplot_loop_drawn[of fcst comp_name bar t ?js "ax_or_new ax"]
      obtain ms where ms: "marks (axes_of ?loop) = marks (ax_or_new ax) @ ms"
        "length ms \<le> ?N"
        "\<forall>p < length ms. \<exists>y. getitem fcst (comp_name @ str_int (int (?js ! p) + 1)) = Inr y \<and>
           ms ! p = series_mark bar (notnull_rows t (as_values y)) ''#0072B2''
                      (Some (overplot_alpha (?js ! p)))"
        "\<forall>ax'. ?loop = Inr ax' \<longrightarrow> length ms = ?N"
        by auto
      have overlay: "\<exists>fcst_t y. getitem fcst ''ds'' = Inr (Datetime fcst_t) \<and>
          getitem fcst (comp_name @ str_int (int (?N - p))) = Inr y \<and>
          length (xdata (ms ! p)) = length (ydata (ms ! p)) \<and>
          None \<notin> set (ydata (ms ! p)) \<and>
          zip (xdata (ms ! p)) (ydata (ms ! p)) =
            filter (\<lambda>(t, v). v \<noteq> None) (zip fcst_t (as_values y))"
        if "p < length ms" for p
      proof -
        from that ms(2) have pN: "p < ?N" by simp
        from ms(3) that obtain y where y:
          "getitem fcst (comp_name @ str_int (int (?js ! p) + 1)) = Inr y"
          "ms ! p = series_mark bar (notnull_rows t (as_values y)) ''#0072B2''
                      (Some (overplot_alpha (?js ! p)))" by blast
        from y(1) idx[OF pN] have "getitem fcst (comp_name @ str_int (int (?N - p))) = Inr y"
          by simp
        with ds series_mark_data[of bar t "as_values y" "''#0072B2''"
            "Some (overplot_alpha (?js ! p))"] y(2)
        show ?thesis by auto
      qed
      show ?thesis
      proof (cases ?loop)
        case (Inl ea)
        then have call: "?call = Inl ea"
          using Some True by (simp add: pmc_Some[OF ds] and_then_def)
        have "marks (axes_of ?call) = marks (ax_or_new ax) @ ms"
          using call Inl ms(1) by simp
        moreover have "?D ms"
        proof (intro allI impI)
          fix p assume p: "p < length ms"
          with ms(2) have "p < ?N" by simp
          with overlay[OF p] Some show "\<exists>fcst_t y.
            getitem fcst ''ds'' = Inr (Datetime fcst_t) \<and>
            getitem fcst (comp_name @ str_int
              (if p < (case num_overplot of None \<Rightarrow> 0 | Some n \<Rightarrow> nat n)
               then int ((case num_overplot of None \<Rightarrow> 0 | Some n \<Rightarrow> nat n) - p)
               else focus)) = Inr y \<and>
            length (xdata (ms ! p)) = length (ydata (ms ! p)) \<and>
            None \<notin> set (ydata (ms ! p)) \<and>
            zip (xdata (ms ! p)) (ydata (ms ! p)) =
              filter (\<lambda>(t, v). v \<noteq> None) (zip fcst_t (as_values y))"
            by simp
        qed
        moreover have "?L ms" using call by simp
        ultimately show ?thesis by blast
      next
        case (Inr ax1)
        with ms(4) have lenN: "length ms = ?N" by simp
        have m1: "marks ax1 = marks (ax_or_new ax) @ ms"
          using ms(1) Inr by (simp add: axes_of_def)
        have Dms: "\<exists>fcst_t y.
            getitem fcst ''ds'' = Inr (Datetime fcst_t) \<and>
            getitem fcst (comp_name @ str_int
              (if p < (case num_overplot of None \<Rightarrow> 0 | Some n \<Rightarrow> nat n)
               then int ((case num_overplot of None \<Rightarrow> 0 | Some n \<Rightarrow> nat n) - p)
               else focus)) = Inr y \<and>
            length (xdata (ms ! p)) = length (ydata (ms ! p)) \<and>
            None \<notin> set (ydata (ms ! p)) \<and>
            zip (xdata (ms ! p)) (ydata (ms ! p)) =
              filter (\<lambda>(t, v). v \<noteq> None) (zip fcst_t (as_values y))"
          if "p < length ms" for p
          using overlay[OF that] that lenN Some by simp
        show ?thesis
        proof (cases "focus > 1")
          case False
          then have call: "?call = Inr (finish_component plot_name comp_name multiplicative ax1)"
            using Some True Inr by (simp add: pmc_Some[OF ds] and_then_def)
          have "?M ms" using call m1 by (simp add: axes_of_def)
          moreover have "?D ms" using Dms by blast
          moreover have "?L ms" using lenN Some False by simp
          ultimately show ?thesis by blast
        next
          case focus: True
          show ?thesis
          proof (cases "getitem fcst (comp_name @ str_int focus)")
            case (Inl e)
            then have call: "?call = Inl (e, ax1)"
              using Some True Inr focus
              by (simp add: pmc_Some[OF ds] and_then_def raising_def)
            have "?M ms" using call m1 by (simp add: axes_of_def)
            moreover have "?D ms" using Dms by blast
            moreover have "?L ms" using call by simp
            ultimately show ?thesis by blast
          next
            case y: (Inr y)
            define fm where "fm = series_mark bar (notnull_rows t (as_values y)) ''b'' None"
            have call: "?call = Inr (finish_component plot_name comp_name multiplicative
                                       (ax1\<lparr>marks := marks ax1 @ [fm]\<rparr>))"
              using Some True Inr focus y
              by (simp add: pmc_Some[OF ds] and_then_def raising_def draw_notnull_eq fm_def)
            have "?M (ms @ [fm])" using call m1 by (simp add: axes_of_def)
            moreover have "?D (ms @ [fm])"
            proof (intro allI impI)
              fix p assume "p < length (ms @ [fm])"
              then consider "p < length ms" | "p = length ms" by fastforce
              then show "\<exists>fcst_t y.
                getitem fcst ''ds'' = Inr (Datetime fcst_t) \<and>
                getitem fcst (comp_name @ str_int
                  (if p < (case num_overplot of None \<Rightarrow> 0 | Some n \<Rightarrow> nat n)
                   then int ((case num_overplot of None \<Rightarrow> 0 | Some n \<Rightarrow> nat n) - p)
                   else focus)) = Inr y \<and>
                length (xdata ((ms @ [fm]) ! p)) = length (ydata ((ms @ [fm]) ! p)) \<and>
                None \<notin> set (ydata ((ms @ [fm]) ! p)) \<and>
                zip (xdata ((ms @ [fm]) ! p)) (ydata ((ms @ [fm]) ! p)) =
                  filter (\<lambda>(t, v). v \<noteq> None) (zip fcst_t (as_values y))"
              proof cases
                case 1
                with Dms[OF 1] show ?thesis by (simp add: nth_append)
              next
                case 2
                then have "(ms @ [fm]) ! p = fm" by simp
                moreover have "\<not> p < (case num_overplot of None \<Rightarrow> 0 | Some n \<Rightarrow> nat n)"
                  using 2 lenN Some by simp
                ultimately show ?thesis
                  using ds y series_mark_data[of bar t "as_values y" "''b''" None]
                  by (auto simp: fm_def)
              qed
            qed
            moreover have "?L (ms @ [fm])" using lenN Some focus by simp
            ultimately show ?thesis by blast
          qed
        qed
      qed
    qed
  qed
qed


text \<open>
  Claim C3. In \<^verbatim>\<open>plot_multiforecast_component\<close> with overlay count \<open>n\<close>, a call that
  returns has drawn, after what the axes held, one overlay per horizon index
  \<open>i < n\<close>, from \<open>i = n - 1\<close> down to \<open>i = 0\<close>, so that the series of horizon 0 is
  the last overlay; the overlay of horizon \<open>i\<close> has alpha
  \<open>0.2 + 1.2 * 0.8 / (i + 1.2)\<close>, and alpha strictly decreases as \<open>i\<close> increases.
  Only the focused series, at most one mark, follows the overlays.
\<close>

theorem overplot_alpha_order:
  assumes "plot_multiforecast_component fcst comp_name plot_name ax multiplicative bar focus
             (Some n) = Inr ax'"
  shows "\<exists>fcst_t overlays focused.
     getitem fcst ''ds'' = Inr (Datetime fcst_t) \<and>
     marks ax' = marks (ax_or_new ax) @ overlays @ focused \<and>
     length overlays = nat n \<and> length focused \<le> 1 \<and>
     (\<forall>i < nat n. \<exists>y. getitem fcst (comp_name @ str_int (int i + 1)) = Inr y \<and>
        overlays ! (nat n - 1 - i) =
          series_mark bar (notnull_rows fcst_t (as_values y)) ''#0072B2''
            (Some (0.2 + 1.2 * 0.8 / (real i + 1.2)))) \<and>
     (\<forall>i j. i < j \<longrightarrow> j < nat n \<longrightarrow>
        the (opacity (overlays ! (nat n - 1 - j))) < the (opacity (overlays ! (nat n - 1 - i))))"
proof (rule ds_cases[of fcst])
  fix e assume "getitem fcst ''ds'' = Inl e"
  with assms show ?thesis by (simp add: pmc_no_ds)
next
  fix vs assume "getitem fcst ''ds'' = Inr (Numeric vs)"
  with assms show ?thesis by (simp add: pmc_ds_numeric)
next
  fix t assume ds: "getitem fcst ''ds'' = Inr (Datetime t)"
  let ?N = "nat n"
  let ?js = "rev [0..<?N]"
  from assms obtain ax1 where
    loop: "overplot_loop fcst comp_name bar t ?js (ax_or_new ax) = Inr ax1"
    by (cases "overplot_loop fcst comp_name bar t ?js (ax_or_new ax)")
       (auto simp: pmc_Some[OF ds] and_then_def split: if_splits)
  from overplot_loop_Inr[OF loop] obtain ms where ms:
    "ax1 = (ax_or_new ax)\<lparr>marks := marks (ax_or_new ax) @ ms\<rparr>" "length ms = ?N"
    "\<forall>k < ?N. \<exists>y. getitem fcst (comp_name @ str_int (int (?js ! k) + 1)) = Inr y \<and>
        ms ! k = series_mark bar (notnull_rows t (as_values y)) ''#0072B2''
                   (Some (overplot_alpha (?js ! k)))"
    by auto
  have idx: "?js ! (?N - 1 - i) = i" if "i < ?N" for i
    using that by (simp add: rev_nth)
  have horizon: "\<exists>y. getitem fcst (comp_name @ str_int (int i + 1)) = Inr y \<and>
        ms ! (?N - 1 - i) = series_mark bar (notnull_rows t (as_values y)) ''#0072B2''
                   (Some (overplot_alpha i))" if "i < ?N" for i
  proof -
    have "?N - 1 - i < ?N" using that by simp
    with ms(3) idx[OF that] show ?thesis by fastforce
  qed
  have op: "the (opacity (ms ! (?N - 1 - i))) = overplot_alpha i" if "i < ?N" for i
    using horizon[OF that] by (auto simp: series_mark_def)
  from focus_step[of "focus > 1" fcst comp_name focus ax1 bar t "''b''" None
      plot_name multiplicative]
  obtain fs where fs: "marks (axes_of (and_then
        (if focus > 1 then raising (getitem fcst (comp_name @ str_int focus)) ax1
            (\<lambda>y. draw_notnull bar t y ''b'' None ax1) else Inr ax1)
        (\<lambda>ax2. Inr (finish_component plot_name comp_name multiplicative ax2))))
          = marks ax1 @ fs"
      "length fs \<le> 1" by blast
  from assms loop have "axes_of (and_then
        (if focus > 1 then raising (getitem fcst (comp_name @ str_int focus)) ax1
            (\<lambda>y. draw_notnull bar t y ''b'' None ax1) else Inr ax1)
        (\<lambda>ax2. Inr (finish_component plot_name comp_name multiplicative ax2))) = ax'"
    by (simp add: pmc_Some[OF ds] and_then_def axes_of_def split: if_splits)
  with fs(1) ms(1) have m: "marks ax' = marks (ax_or_new ax) @ ms @ fs" by simp
  show ?thesis
  proof (rule exI[of _ t], rule exI[of _ ms], rule exI[of _ fs], intro conjI allI impI)
    show "getitem fcst ''ds'' = Inr (Datetime t)" by (rule ds)
    show "marks ax' = marks (ax_or_new ax) @ ms @ fs" by (rule m)
    show "length ms = ?N" by (rule ms(2))
    show "length fs \<le> 1" by (rule fs(2))
  next
    fix i assume "i < ?N"
    from horizon[OF this]
    show "\<exists>y. getitem fcst (comp_name @ str_int (int i + 1)) = Inr y \<and>
        ms ! (?N - 1 - i) = series_mark bar (notnull_rows t (as_values y)) ''#0072B2''
            (Some (0.2 + 1.2 * 0.8 / (real i + 1.2)))"
      by (simp add: overplot_alpha_closed)
  next
    fix i j :: nat assume "i < j" "j < ?N"
    then have "i < ?N" by simp
    from op[OF this] op[OF \<open>j < ?N\<close>] overplot_alpha_strict[OF \<open>i < j\<close>]
    show "the (opacity (ms ! (?N - 1 - j))) < the (opacity (ms ! (?N - 1 - i)))"
      by simp
  qed
qed

theorem overplot_alpha_order_witness:
  "plot_multiforecast_component fcst_ar ''ar'' None None False True 2 (Some 2) =
     Inr \<lparr>marks = [Bar [2, 3] [Some 2, Some 5] 1 (Some ''#0072B2'') (Some (7 / 11)),
                   Bar [1, 3] [Some 1, Some 3] 1 (Some ''#0072B2'') (Some 1),
                   Bar [2, 3] [Some 2, Some 5] 1 (Some ''b'') None],
          x_label = ''ds'', y_label = ''ar'', y_percent = False\<rparr> \<and>
   (\<exists>overlays focused.
      [Bar [2, 3] [Some 2, Some 5] 1 (Some ''#0072B2'') (Some (7 / 11)),
       Bar [1, 3] [Some 1, Some 3] 1 (Some ''#0072B2'') (Some 1),
       Bar [2, 3] [Some 2, Some 5] 1 (Some ''b'') None] = overlays @ focused \<and>
      length overlays = 2 \<and>
      the (opacity (overlays ! 0)) < the (opacity (overlays ! 1)))"
proof -
  from overplot_alpha_order[OF run_fcst_ar] obtain t overlays focused where o:
    "[Bar [2, 3] [Some 2, Some 5] 1 (Some ''#0072B2'') (Some (7 / 11)),
      Bar [1, 3] [Some 1, Some 3] 1 (Some ''#0072B2'') (Some 1),
      Bar [2, 3] [Some 2, Some 5] 1 (Some ''b'') None] = marks (ax_or_new None) @ overlays @ focused"
    "length overlays = nat 2"
    "\<forall>i j. i < j \<longrightarrow> j < nat 2 \<longrightarrow>
        the (opacity (overlays ! (nat 2 - 1 - j))) < the (opacity (overlays ! (nat 2 - 1 - i)))"
    by auto
  from o(3)[rule_format, of 0 1]
  have "the (opacity (overlays ! 0)) < the (opacity (overlays ! 1))" by simp
  with o(1,2) run_fcst_ar show ?thesis
    by (simp add: ax_or_new_def new_axes_def) blast
qed

text \<open>
  Claim C4. A call of \<^verbatim>\<open>plot_multiforecast_component\<close> whose overlay count
  \<^verbatim>\<open>num_overplot\<close> exceeds the number of table columns that start with the component's
  name fails before any series is drawn: it raises on axes that hold exactly what they
  held, and with a timestamp column \<^verbatim>\<open>ds\<close> the exception is the \<^verbatim>\<open>AssertionError\<close> of the
  precondition.
\<close>

theorem overplot_exceeds_fails:
  assumes "int (length (filter (\<lambda>col_name. startswith col_name comp_name) (columns fcst))) < n"
  shows "\<exists>e. plot_multiforecast_component fcst comp_name plot_name ax multiplicative bar focus
               (Some n) = Inl (e, ax_or_new ax) \<and>
        (\<forall>fcst_t. getitem fcst ''ds'' = Inr (Datetime fcst_t) \<longrightarrow> e = AssertionError)"
  by (rule ds_cases[of fcst])
     (use assms in \<open>auto simp: pmc_no_ds pmc_ds_numeric pmc_Some\<close>)

theorem overplot_exceeds_fails_witness:
  "int (length (filter (\<lambda>col_name. startswith col_name ''ar'') (columns fcst_ar))) < 3 \<and>
   plot_multiforecast_component fcst_ar ''ar'' None None False True 1 (Some 3)
     = Inl (AssertionError, new_axes)"
proof -
  have h: "int (length (filter (\<lambda>col_name. startswith col_name ''ar'') (columns fcst_ar))) < 3"
    by (simp add: fcst_ar_def columns_def)
  from overplot_exceeds_fails[OF h, of None None False True 1] ds_fcst_ar h
  show ?thesis by (auto simp: ax_or_new_def)
qed

text \<open>
  Claim C5. A call of \<^verbatim>\<open>plot_multiforecast_component\<close> with \<^verbatim>\<open>num_overplot = None\<close>,
  the documented default, fails before anything is drawn: it raises on axes that hold
  exactly what they held, and with a timestamp column \<^verbatim>\<open>ds\<close> the exception is the
  \<^verbatim>\<open>TypeError\<close> of comparing \<^verbatim>\<open>None\<close> with an integer in the assertion. So no call
  reaches the branch that plots the focus only.
\<close>

theorem overplot_None_fails:
  "\<exists>e. plot_multiforecast_component fcst comp_name plot_name ax multiplicative bar focus None
          = Inl (e, ax_or_new ax) \<and>
        (\<forall>fcst_t. getitem fcst ''ds'' = Inr (Datetime fcst_t) \<longrightarrow> e = TypeError)"
  by (rule ds_cases[of fcst]) (auto simp: pmc_no_ds pmc_ds_numeric pmc_None)

theorem overplot_None_fails_witness:
  "plot_multiforecast_component fcst_ar ''ar'' None None False True 2 None
     = Inl (TypeError, new_axes)"
  using overplot_None_fails[of fcst_ar "''ar''" None None False True 2] ds_fcst_ar
  by (auto simp: ax_or_new_def)

text \<open>
  Claim C9. What \<^verbatim>\<open>plot_multiforecast_component\<close> draws, whether the call then returns
  or raises, is one series per horizon in drawing order: at position \<open>p\<close> below the
  overlay count \<open>n\<close> the series of column \<^verbatim>\<open>comp_name(n - p)\<close>, and after the overlays
  the series of column \<^verbatim>\<open>comp_name(focus)\<close>. Each series passes to the drawing call
  exactly the rows of its own column whose value is not null, timestamp and value, in
  row order, and no null is among the values. A call that returns has drawn all \<open>n\<close>
  overlays, and the focused series as well when \<^verbatim>\<open>focus > 1\<close>; and the call returns
  when the overlay count does not exceed the number of prefixed columns and the columns
  of the horizons \<open>1..n\<close> and of the focus exist.
\<close>

theorem null_rows_omitted:
  "(\<exists>drawn.
     marks (axes_of (plot_multiforecast_component fcst comp_name plot_name ax
                       multiplicative bar focus num_overplot))
       = marks (ax_or_new ax) @ drawn \<and>
     (\<forall>p < length drawn. \<exists>fcst_t y.
        getitem fcst ''ds'' = Inr (Datetime fcst_t) \<and>
        getitem fcst (comp_name @ str_int
          (if p < (case num_overplot of None \<Rightarrow> 0 | Some n \<Rightarrow> nat n)
           then int ((case num_overplot of None \<Rightarrow> 0 | Some n \<Rightarrow> nat n) - p)
           else focus)) = Inr y \<and>
        length (xdata (drawn ! p)) = length (ydata (drawn ! p)) \<and>
        None \<notin> set (ydata (drawn ! p)) \<and>
        zip (xdata (drawn ! p)) (ydata (drawn ! p)) =
          filter (\<lambda>(t, v). v \<noteq> None) (zip fcst_t (as_values y))) \<and>
     (\<forall>ax'. plot_multiforecast_component fcst comp_name plot_name ax multiplicative bar focus
              num_overplot = Inr ax' \<longrightarrow>
        length drawn = (case num_overplot of None \<Rightarrow> 0 | Some n \<Rightarrow> nat n) +
                       (if focus > 1 then 1 else 0))) \<and>
   (\<forall>fcst_t n.
      getitem fcst ''ds'' = Inr (Datetime fcst_t) \<longrightarrow> num_overplot = Some n \<longrightarrow>
      n \<le> int (length (filter (\<lambda>col_name. startswith col_name comp_name) (columns fcst))) \<longrightarrow>
      (\<forall>i < nat n. \<exists>y. getitem fcst (comp_name @ str_int (int i + 1)) = Inr y) \<longrightarrow>
      (focus > 1 \<longrightarrow> (\<exists>y. getitem fcst (comp_name @ str_int focus) = Inr y)) \<longrightarrow>
      (\<exists>ax'. plot_multiforecast_component fcst comp_name plot_name ax multiplicative bar focus
                num_overplot = Inr ax'))"
proof (rule conjI)
  show "\<exists>drawn.
     marks (axes_of (plot_multiforecast_component fcst comp_name plot_name ax
                       multiplicative bar focus num_overplot))
       = marks (ax_or_new ax) @ drawn \<and>
     (\<forall>p < length drawn. \<exists>fcst_t y.
        getitem fcst ''ds'' = Inr (Datetime fcst_t) \<and>
        getitem fcst (comp_name @ str_int
          (if p < (case num_overplot of None \<Rightarrow> 0 | Some n \<Rightarrow> nat n)
           then int ((case num_overplot of None \<Rightarrow> 0 | Some n \<Rightarrow> nat n) - p)
           else focus)) = Inr y \<and>
        length (xdata (drawn ! p)) = length (ydata (drawn ! p)) \<and>
        None \<notin> set (ydata (drawn ! p)) \<and>
        zip (xdata (drawn ! p)) (ydata (drawn ! p)) =
          filter (\<lambda>(t, v). v \<noteq> None) (zip fcst_t (as_values y))) \<and>
     (\<forall>ax'. plot_multiforecast_component fcst comp_name plot_name ax multiplicative bar focus
              num_overplot = Inr ax' \<longrightarrow>
        length drawn = (case num_overplot of None \<Rightarrow> 0 | Some n \<Rightarrow> nat n) +
                       (if focus > 1 then 1 else 0))"
    by (rule multiforecast_drawn)
next
  show "\<forall>fcst_t n.
      getitem fcst ''ds'' = Inr (Datetime fcst_t) \<longrightarrow> num_overplot = Some n \<longrightarrow>
      n \<le> int (length (filter (\<lambda>col_name. startswith col_name comp_name) (columns fcst))) \<longrightarrow>
      (\<forall>i < nat n. \<exists>y. getitem fcst (comp_name @ str_int (int i + 1)) = Inr y) \<longrightarrow>
      (focus > 1 \<longrightarrow> (\<exists>y. getitem fcst (comp_name @ str_int focus) = Inr y)) \<longrightarrow>
      (\<exists>ax'. plot_multiforecast_component fcst comp_name plot_name ax multiplicative bar focus
                num_overplot = Inr ax')"
    using multiforecast_returns[of fcst _ _ comp_name focus plot_name ax multiplicative bar]
    by blast
qed

theorem null_rows_omitted_witness:
  "\<exists>drawn.
     marks (axes_of (plot_multiforecast_component fcst_ar ''ar'' None None False True 2 (Some 2)))
       = drawn \<and>
     length drawn = 3 \<and>
     zip (xdata (drawn ! 0)) (ydata (drawn ! 0)) = [(2, Some 2), (3, Some 5)] \<and>
     zip (xdata (drawn ! 1)) (ydata (drawn ! 1)) = [(1, Some 1), (3, Some 3)] \<and>
     zip (xdata (drawn ! 2)) (ydata (drawn ! 2)) = [(2, Some 2), (3, Some 5)]"
proof -
  let ?call = "plot_multiforecast_component fcst_ar ''ar'' None None False True 2 (Some 2)"
  have ret: "\<exists>ax'. ?call = Inr ax'" using run_fcst_ar by blast
  have c1: "getitem fcst_ar (''ar'' @ str_int 1) = Inr (Numeric [Some 1, None, Some 3])"
    by (simp add: fcst_ar_def getitem_def str_int_def str_nat.simps)
  have c2: "getitem fcst_ar (''ar'' @ str_int 2) = Inr (Numeric [None, Some 2, Some 5])"
    by (simp add: fcst_ar_def getitem_def str_int_def str_nat.simps)
  from null_rows_omitted[of fcst_ar "''ar''" None None False True 2 "Some 2"]
  obtain drawn where d:
    "marks (axes_of ?call) = marks (ax_or_new None) @ drawn"
    "\<forall>p < length drawn. \<exists>fcst_t y.
        getitem fcst_ar ''ds'' = Inr (Datetime fcst_t) \<and>
        getitem fcst_ar (''ar'' @ str_int
          (if p < (case Some (2::int) of None \<Rightarrow> 0 | Some n \<Rightarrow> nat n)
           then int ((case Some (2::int) of None \<Rightarrow> 0 | Some n \<Rightarrow> nat n) - p)
           else 2)) = Inr y \<and>
        length (xdata (drawn ! p)) = length (ydata (drawn ! p)) \<and>
        None \<notin> set (ydata (drawn ! p)) \<and>
        zip (xdata (drawn ! p)) (ydata (drawn ! p)) =
          filter (\<lambda>(t, v). v \<noteq> None) (zip fcst_t (as_values y))"
    "\<forall>ax'. ?call = Inr ax' \<longrightarrow>
        length drawn = (case Some (2::int) of None \<Rightarrow> 0 | Some n \<Rightarrow> nat n) +
                       (if (2::int) > 1 then 1 else 0)"
    by blast
  from d(3) ret have len: "length drawn = 3" by auto
  from d(2)[rule_format, of 0] len ds_fcst_ar c2
  have z0: "zip (xdata (drawn ! 0)) (ydata (drawn ! 0)) = [(2, Some 2), (3, Some 5)]" by auto
  from d(2)[rule_format, of 1] len ds_fcst_ar c1
  have z1: "zip (xdata (drawn ! 1)) (ydata (drawn ! 1)) = [(1, Some 1), (3, Some 3)]" by auto
  from d(2)[rule_format, of 2] len ds_fcst_ar c2
  have z2: "zip (xdata (drawn ! 2)) (ydata (drawn ! 2)) = [(2, Some 2), (3, Some 5)]" by auto
  from d(1) have "marks (axes_of ?call) = drawn" by (simp add: ax_or_new_def new_axes_def)
  with len z0 z1 z2 show ?thesis by blast
qed

section \<open>Properties of \<^verbatim>\<open>plot\<close>\<close>

lemma getitem_in_columns:
  "name \<in> set (columns fcst) \<Longrightarrow> \<exists>c. getitem fcst name = Inr c"
  by (cases "map_of fcst name") (auto simp: getitem_def columns_def map_of_eq_None_iff)

lemma getitem_column_length:
  assumes "wf_dataframe fcst" "getitem fcst a = Inr c" "getitem fcst b = Inr d"
  shows "column_length c = column_length d"
proof -
  from assms(2) have "(a, c) \<in> set fcst"
    by (auto simp: getitem_def split: option.splits dest: map_of_SomeD)
  moreover from assms(3) have "(b, d) \<in> set fcst"
    by (auto simp: getitem_def split: option.splits dest: map_of_SomeD)
  ultimately have "c \<in> set (map snd fcst)" "d \<in> set (map snd fcst)" by force+
  with assms(1) show ?thesis unfolding wf_dataframe_def by blast
qed

lemma length_as_values [simp]: "length (as_values c) = column_length c"
  by (cases c) simp_all

lemma yhat_loop_ok:
  assumes "\<forall>i \<in> set js. \<exists>c. getitem fcst (''yhat'' @ str_int (int i + 1)) = Inr c \<and>
              column_length c = length ds"
  shows "\<exists>ms. yhat_loop fcst ds js ax = Inr (ax\<lparr>marks := marks ax @ ms\<rparr>) \<and>
           length ms = length js \<and>
           (\<forall>n < length js. \<exists>c. getitem fcst (''yhat'' @ str_int (int (js ! n) + 1)) = Inr c \<and>
               ms ! n = Plot ds (as_values c) (Ls ''-'') (Some ''#0072B2'')
                          (Some (composite_alpha (js ! n))))"
  using assms
proof (induction js arbitrary: ax)
  case Nil
  then show ?case by simp
next
  case (Cons j js)
  from Cons.prems obtain c where c: "getitem fcst (''yhat'' @ str_int (int j + 1)) = Inr c"
    "column_length c = length ds" by auto
  define m where "m = Plot ds (as_values c) (Ls ''-'') (Some ''#0072B2'') (Some (composite_alpha j))"
  define ax1 where "ax1 = ax\<lparr>marks := marks ax @ [m]\<rparr>"
  have step: "yhat_loop fcst ds (j # js) ax = yhat_loop fcst ds js ax1"
    using c by (simp add: raising_def and_then_def ax_plot_def ax1_def m_def)
  from Cons.prems have "\<forall>i \<in> set js. \<exists>c. getitem fcst (''yhat'' @ str_int (int i + 1)) = Inr c \<and>
              column_length c = length ds" by simp
  from Cons.IH[OF this, of ax1] obtain ms where ms:
    "yhat_loop fcst ds js ax1 = Inr (ax1\<lparr>marks := marks ax1 @ ms\<rparr>)" "length ms = length js"
    "\<forall>n < length js. \<exists>c. getitem fcst (''yhat'' @ str_int (int (js ! n) + 1)) = Inr c \<and>
               ms ! n = Plot ds (as_values c) (Ls ''-'') (Some ''#0072B2'')
                          (Some (composite_alpha (js ! n)))" by blast
  have "yhat_loop fcst ds (j # js) ax = Inr (ax\<lparr>marks := marks ax @ (m # ms)\<rparr>)"
    using step ms(1) by (simp add: ax1_def)
  moreover have "length (m # ms) = length (j # js)" using ms(2) by simp
  moreover have "\<forall>n < length (j # js). \<exists>c. getitem fcst (''yhat'' @ str_int (int ((j # js) ! n) + 1)) = Inr c \<and>
               (m # ms) ! n = Plot ds (as_values c) (Ls ''-'') (Some ''#0072B2'')
                          (Some (composite_alpha ((j # js) ! n)))"
  proof (intro allI impI)
    fix n assume "n < length (j # js)"
    then show "\<exists>c. getitem fcst (''yhat'' @ str_int (int ((j # js) ! n) + 1)) = Inr c \<and>
               (m # ms) ! n = Plot ds (as_values c) (Ls ''-'') (Some ''#0072B2'')
                          (Some (composite_alpha ((j # js) ! n)))"
      using c(1) ms(3) by (cases n) (auto simp: m_def)
  qed
  ultimately show ?case by blast
qed

lemma highlight_ok:
  assumes "getitem fcst (''yhat'' @ str_int h) = Inr c" "column_length c = length ds"
  shows "highlight fcst ds h ax = Inr (ax\<lparr>marks := marks ax @
            [Plot ds (as_values c) (Ls ''-'') (Some ''b'') None,
             Plot ds (as_values c) (Fmt ''bx'') None None]\<rparr>)"
  using assms by (simp add: highlight_def raising_def and_then_def ax_plot_def)

lemma composite_alpha_closed: "composite_alpha i = 0.2 + 2.0 / (real i + 2.5)"
  by (simp add: composite_alpha_def)

lemma composite_alpha_strict: "i < j \<Longrightarrow> composite_alpha j < composite_alpha i"
  by (simp add: composite_alpha_def frac_less2)

lemma digit_inject:
  "a < 10 \<Longrightarrow> b < 10 \<Longrightarrow> ''0123456789'' ! a = ''0123456789'' ! b \<Longrightarrow> a = b"
proof -
  assume "a < 10" "b < 10" and eq: "''0123456789'' ! a = ''0123456789'' ! b"
  have "distinct ''0123456789''" by simp
  moreover have "a < length ''0123456789''" "b < length ''0123456789''"
    using \<open>a < 10\<close> \<open>b < 10\<close> by simp_all
  ultimately show "a = b" using eq by (simp only: nth_eq_iff_index_eq)
qed

lemma str_nat_nonempty: "str_nat n \<noteq> []"
  by (subst str_nat.simps) simp

lemma str_nat_digits: "set (str_nat n) \<subseteq> set ''0123456789''"
proof (induction n rule: str_nat.induct)
  case (1 n)
  have d: "''0123456789'' ! k \<in> set ''0123456789''" if "k < 10" for k
    using that by (intro nth_mem) simp
  show ?case
  proof (cases "n < 10")
    case True
    then show ?thesis using d[of n] by (subst str_nat.simps) simp
  next
    case False
    have "n mod 10 < 10" by simp
    from d[OF this] "1.IH"[OF False] False show ?thesis
      by (subst str_nat.simps) simp
  qed
qed

lemma str_nat_inject: "str_nat m = str_nat n \<Longrightarrow> m = n"
proof (induction m arbitrary: n rule: str_nat.induct)
  case (1 m)
  show ?case
  proof (cases "m < 10")
    case m: True
    show ?thesis
    proof (cases "n < 10")
      case True
      with m "1.prems" have "''0123456789'' ! m = ''0123456789'' ! n"
        by (simp add: str_nat.simps[of m] str_nat.simps[of n])
      with m True show ?thesis by (rule digit_inject)
    next
      case False
      with m "1.prems" have "[''0123456789'' ! m] = str_nat (n div 10) @ [''0123456789'' ! (n mod 10)]"
        by (simp add: str_nat.simps[of m] str_nat.simps[of n])
      then have "str_nat (n div 10) = []" by simp
      with str_nat_nonempty show ?thesis by blast
    qed
  next
    case m: False
    show ?thesis
    proof (cases "n < 10")
      case True
      with m "1.prems" have "str_nat (m div 10) @ [''0123456789'' ! (m mod 10)] = [''0123456789'' ! n]"
        by (simp add: str_nat.simps[of m] str_nat.simps[of n])
      then have "str_nat (m div 10) = []" by simp
      with str_nat_nonempty show ?thesis by blast
    next
      case False
      with m "1.prems" have eq: "str_nat (m div 10) @ [''0123456789'' ! (m mod 10)] =
          str_nat (n div 10) @ [''0123456789'' ! (n mod 10)]"
        by (simp add: str_nat.simps[of m] str_nat.simps[of n])
      then have "str_nat (m div 10) = str_nat (n div 10)"
        and l: "''0123456789'' ! (m mod 10) = ''0123456789'' ! (n mod 10)" by simp_all
      from "1.IH"[OF m this(1)] have q: "m div 10 = n div 10" .
      have "m mod 10 = n mod 10" by (rule digit_inject[OF _ _ l]) simp_all
      with q show ?thesis by (metis div_mult_mod_eq)
    qed
  qed
qed

lemma str_int_inject: "str_int i = str_int j \<Longrightarrow> i = j"
proof -
  assume eq: "str_int i = str_int j"
  have nd: "CHR ''-'' # s \<noteq> str_nat n" for s n
  proof
    assume "CHR ''-'' # s = str_nat n"
    then have "CHR ''-'' \<in> set (str_nat n)" by (metis list.set_intros(1))
    with str_nat_digits[of n] show False by auto
  qed
  show "i = j"
  proof (cases "i < 0"; cases "j < 0")
    assume "i < 0" "j < 0"
    with eq have "str_nat (nat (- i)) = str_nat (nat (- j))" by (simp add: str_int_def)
    from str_nat_inject[OF this] \<open>i < 0\<close> \<open>j < 0\<close> show ?thesis by simp
  next
    assume "i < 0" "\<not> j < 0"
    with eq nd show ?thesis by (simp add: str_int_def)
  next
    assume "\<not> i < 0" "j < 0"
    with eq nd[of "str_nat (nat (- j))" "nat i"] show ?thesis by (simp add: str_int_def)
  next
    assume "\<not> i < 0" "\<not> j < 0"
    with eq have "str_nat (nat i) = str_nat (nat j)" by (simp add: str_int_def)
    from str_nat_inject[OF this] \<open>\<not> i < 0\<close> \<open>\<not> j < 0\<close> show ?thesis by simp
  qed
qed

lemma contains_yhat: "contains (''yhat'' @ s) ''yhat''"
  by simp

text \<open>
  A highlight index outside \<open>1..k\<close> names no column of the table: a column of that
  name would be among the columns containing \<^verbatim>\<open>yhat\<close>, which are \<^verbatim>\<open>yhat1\<close> .. \<^verbatim>\<open>yhatk\<close>,
  and the decimal rendering of integers is injective.
\<close>

lemma yhat_out_of_range_missing:
  assumes cols: "mset (filter (\<lambda>col_name. contains col_name ''yhat'') (columns fcst)) =
                 mset (map (\<lambda>i. ''yhat'' @ str_int (int i + 1)) [0..<k])"
    and h: "\<not> (1 \<le> h \<and> h \<le> int k)"
  shows "getitem fcst (''yhat'' @ str_int h) = Inl KeyError"
proof -
  have "''yhat'' @ str_int h \<notin> set (columns fcst)"
  proof
    assume "''yhat'' @ str_int h \<in> set (columns fcst)"
    with contains_yhat[of "str_int h"]
    have "''yhat'' @ str_int h \<in> set (filter (\<lambda>col_name. contains col_name ''yhat'') (columns fcst))"
      by simp
    with mset_eq_setD[OF cols]
    have "''yhat'' @ str_int h \<in> set (map (\<lambda>i. ''yhat'' @ str_int (int i + 1)) [0..<k])"
      by simp
    then obtain i where i: "i < k" "''yhat'' @ str_int h = ''yhat'' @ str_int (int i + 1)"
      by auto
    from i(2) have "str_int h = str_int (int i + 1)" by simp
    from str_int_inject[OF this] i(1) h show False by simp
  qed
  then have "map_of fcst (''yhat'' @ str_int h) = None"
    by (simp add: columns_def map_of_eq_None_iff)
  then show ?thesis by (simp add: getitem_def)
qed

text \<open>
  Claim C1, amended. For a forecast table with a timestamp column \<^verbatim>\<open>ds\<close>, a column \<^verbatim>\<open>y\<close>
  and, as the columns whose name contains \<^verbatim>\<open>yhat\<close>, exactly \<^verbatim>\<open>yhat1\<close> .. \<^verbatim>\<open>yhatk\<close>,
  \<^verbatim>\<open>plot\<close> draws exactly \<open>k\<close> overlay lines, the \<open>i\<close>-th (from 0) of column
  \<^verbatim>\<open>yhat(i+1)\<close> with alpha \<open>0.2 + 2.0 / (i + 2.5)\<close>, strictly decreasing in \<open>i\<close>.
  Without a highlight index it then draws the points of the actual values and returns.
  With a highlight index \<open>h\<close> in \<open>1..k\<close> it draws, after the \<open>k\<close> overlays, exactly two
  more marks for column \<^verbatim>\<open>yhat h\<close>, a line and a marker overlay, then the points of the
  actual values, and returns. With a highlight index outside \<open>1..k\<close> it raises
  \<^verbatim>\<open>KeyError\<close> once the \<open>k\<close> overlays are drawn, and draws no other mark.
\<close>

theorem plot_overlays_then_highlight:
  assumes wf: "wf_dataframe fcst"
    and ds: "getitem fcst ''ds'' = Inr (Datetime ds)"
    and y: "getitem fcst ''y'' = Inr y"
    and cols: "mset (filter (\<lambda>col_name. contains col_name ''yhat'') (columns fcst)) =
               mset (map (\<lambda>i. ''yhat'' @ str_int (int i + 1)) [0..<k])"
  shows "\<exists>overlays.
     length overlays = k \<and>
     (\<forall>i < k. \<exists>c. getitem fcst (''yhat'' @ str_int (int i + 1)) = Inr c \<and>
        overlays ! i = Plot ds (as_values c) (Ls ''-'') (Some ''#0072B2'')
                         (Some (0.2 + 2.0 / (real i + 2.5)))) \<and>
     (\<forall>i j. i < j \<longrightarrow> j < k \<longrightarrow>
        the (opacity (overlays ! j)) < the (opacity (overlays ! i))) \<and>
     (highlight_forecast = None \<longrightarrow>
        (\<exists>ax'. plot fcst ax xlabel ylabel highlight_forecast = Inr ax' \<and>
           marks ax' = marks (ax_or_new ax) @ overlays @
                         [Plot ds (as_values y) (Fmt ''k.'') None None])) \<and>
     (\<forall>h. highlight_forecast = Some h \<longrightarrow> 1 \<le> h \<longrightarrow> h \<le> int k \<longrightarrow>
        (\<exists>ax' c. plot fcst ax xlabel ylabel highlight_forecast = Inr ax' \<and>
           getitem fcst (''yhat'' @ str_int h) = Inr c \<and>
           marks ax' = marks (ax_or_new ax) @ overlays @
                         [Plot ds (as_values c) (Ls ''-'') (Some ''b'') None,
                          Plot ds (as_values c) (Fmt ''bx'') None None] @
                         [Plot ds (as_values y) (Fmt ''k.'') None None])) \<and>
     (\<forall>h. highlight_forecast = Some h \<longrightarrow> \<not> (1 \<le> h \<and> h \<le> int k) \<longrightarrow>
        plot fcst ax xlabel ylabel highlight_forecast =
          Inl (KeyError, (ax_or_new ax)\<lparr>marks := marks (ax_or_new ax) @ overlays\<rparr>))"
proof -
  let ?names = "filter (\<lambda>col_name. contains col_name ''yhat'') (columns fcst)"
  let ?yhat = "\<lambda>i::nat. ''yhat'' @ str_int (int i + 1)"
  have len: "length ?names = k"
    using mset_eq_length[OF cols] by simp
  have col: "\<exists>c. getitem fcst (?yhat i) = Inr c \<and> column_length c = length ds" if "i < k" for i
  proof -
    have "?yhat i \<in> set (map ?yhat [0..<k])" using that by simp
    then have "?yhat i \<in> set ?names" using mset_eq_setD[OF cols] by simp
    then have "?yhat i \<in> set (columns fcst)" by simp
    from getitem_in_columns[OF this] obtain c where c: "getitem fcst (?yhat i) = Inr c" by blast
    from getitem_column_length[OF wf c ds] have "column_length c = length ds" by simp
    with c show ?thesis by blast
  qed
  define ax0 where "ax0 = ax_or_new ax"
  have "\<forall>i \<in> set [0..<k]. \<exists>c. getitem fcst (?yhat i) = Inr c \<and> column_length c = length ds"
    using col by simp
  from yhat_loop_ok[OF this, of ax0] obtain ms where ms:
    "yhat_loop fcst ds [0..<k] ax0 = Inr (ax0\<lparr>marks := marks ax0 @ ms\<rparr>)" "length ms = k"
    "\<forall>n < k. \<exists>c. getitem fcst (?yhat n) = Inr c \<and>
        ms ! n = Plot ds (as_values c) (Ls ''-'') (Some ''#0072B2'') (Some (composite_alpha n))"
    by auto
  define ax1 where "ax1 = ax0\<lparr>marks := marks ax0 @ ms\<rparr>"
  have op: "the (opacity (ms ! i)) = composite_alpha i" if "i < k" for i
    using ms(3) that by fastforce
  have ylen: "length ds = length (as_values y)"
    using getitem_column_length[OF wf ds y] by simp
  have run: "plot fcst ax xlabel ylabel highlight_forecast =
      and_then (case highlight_forecast of None \<Rightarrow> Inr ax1 | Some h \<Rightarrow> highlight fcst ds h ax1)
        (\<lambda>ax2. Inr (ax2\<lparr>marks := marks ax2 @ [Plot ds (as_values y) (Fmt ''k.'') None None],
                         x_label := xlabel, y_label := ylabel\<rparr>))"
    using ds y len ms(1) ylen
    by (cases "case highlight_forecast of None \<Rightarrow> Inr ax1
                 | Some h \<Rightarrow> highlight fcst ds h ax1")
       (simp_all add: plot_def Let_def raising_def and_then_def ax_plot_def
          ax0_def[symmetric] ax1_def[symmetric])
  show ?thesis
  proof (rule exI[of _ ms], intro conjI allI impI)
    show "length ms = k" by (rule ms(2))
  next
    fix i assume "i < k"
    with ms(3) show "\<exists>c. getitem fcst (''yhat'' @ str_int (int i + 1)) = Inr c \<and>
        ms ! i = Plot ds (as_values c) (Ls ''-'') (Some ''#0072B2'')
                   (Some (0.2 + 2.0 / (real i + 2.5)))"
      by (simp add: composite_alpha_closed)
  next
    fix i j :: nat assume "i < j" "j < k"
    then have "i < k" by simp
    from op[OF this] op[OF \<open>j < k\<close>] composite_alpha_strict[OF \<open>i < j\<close>]
    show "the (opacity (ms ! j)) < the (opacity (ms ! i))" by simp
  next
    assume n: "highlight_forecast = None"
    have "plot fcst ax xlabel ylabel highlight_forecast =
            Inr (ax1\<lparr>marks := marks ax1 @ [Plot ds (as_values y) (Fmt ''k.'') None None],
                     x_label := xlabel, y_label := ylabel\<rparr>)"
      by (subst run) (simp add: n and_then_def)
    then show "\<exists>ax'. plot fcst ax xlabel ylabel highlight_forecast = Inr ax' \<and>
           marks ax' = marks (ax_or_new ax) @ ms @
                         [Plot ds (as_values y) (Fmt ''k.'') None None]"
      by (simp add: ax1_def ax0_def)
  next
    fix h assume h: "highlight_forecast = Some h" "1 \<le> h" "h \<le> int k"
    then have "nat (h - 1) < k" "int (nat (h - 1)) + 1 = h" by auto
    with col[of "nat (h - 1)"] obtain c where c: "getitem fcst (''yhat'' @ str_int h) = Inr c"
      "column_length c = length ds" by auto
    have "plot fcst ax xlabel ylabel highlight_forecast =
            Inr (ax1\<lparr>marks := marks ax1 @
                       [Plot ds (as_values c) (Ls ''-'') (Some ''b'') None,
                        Plot ds (as_values c) (Fmt ''bx'') None None] @
                       [Plot ds (as_values y) (Fmt ''k.'') None None],
                     x_label := xlabel, y_label := ylabel\<rparr>)"
      by (subst run) (simp add: h(1) and_then_def highlight_ok[OF c])
    with c(1)
    show "\<exists>ax' c. plot fcst ax xlabel ylabel highlight_forecast = Inr ax' \<and>
           getitem fcst (''yhat'' @ str_int h) = Inr c \<and>
           marks ax' = marks (ax_or_new ax) @ ms @
                         [Plot ds (as_values c) (Ls ''-'') (Some ''b'') None,
                          Plot ds (as_values c) (Fmt ''bx'') None None] @
                         [Plot ds (as_values y) (Fmt ''k.'') None None]"
      by (simp add: ax1_def ax0_def)
  next
    fix h assume h: "highlight_forecast = Some h" "\<not> (1 \<le> h \<and> h \<le> int k)"
    have "highlight fcst ds h ax1 = Inl (KeyError, ax1)"
      using yhat_out_of_range_missing[OF cols h(2)]
      by (simp add: highlight_def raising_def)
    then have "plot fcst ax xlabel ylabel highlight_forecast = Inl (KeyError, ax1)"
      by (subst run) (simp add: h(1) and_then_def)
    then show "plot fcst ax xlabel ylabel highlight_forecast =
          Inl (KeyError, (ax_or_new ax)\<lparr>marks := marks (ax_or_new ax) @ ms\<rparr>)"
      by (simp add: ax1_def ax0_def)
  qed
qed

theorem plot_overlays_then_highlight_witness:
  "(\<exists>ax'. plot fcst_yhat1 None ''ds'' ''y'' (Some 1) = Inr ax' \<and> length (marks ax') = 4) \<and>
   (\<exists>e ax'. plot fcst_yhat1 None ''ds'' ''y'' (Some 0) = Inl (e, ax') \<and> e = KeyError \<and>
      length (marks ax') = 1)"
proof -
  have wf: "wf_dataframe fcst_yhat1"
    by (simp add: wf_dataframe_def fcst_yhat1_def)
  have ds: "getitem fcst_yhat1 ''ds'' = Inr (Datetime [0, 1, 2, 3, 4])"
    by (simp add: getitem_def fcst_yhat1_def)
  have y: "getitem fcst_yhat1 ''y'' = Inr (Numeric [Some 1, Some 2, Some 3, Some 4, Some 5])"
    by (simp add: getitem_def fcst_yhat1_def)
  have cols: "mset (filter (\<lambda>col_name. contains col_name ''yhat'') (columns fcst_yhat1)) =
              mset (map (\<lambda>i. ''yhat'' @ str_int (int i + 1)) [0..<1])"
    by (simp add: fcst_yhat1_def columns_def str_int_def str_nat.simps)
  from plot_overlays_then_highlight[OF wf ds y cols, of "Some 1" None "''ds''" "''y''"]
  obtain overlays ax' c where r:
    "length overlays = 1"
    "plot fcst_yhat1 None ''ds'' ''y'' (Some 1) = Inr ax'"
    "marks ax' = marks (ax_or_new None) @ overlays @
       [Plot [0, 1, 2, 3, 4] (as_values c) (Ls ''-'') (Some ''b'') None,
        Plot [0, 1, 2, 3, 4] (as_values c) (Fmt ''bx'') None None] @
       [Plot [0, 1, 2, 3, 4] (as_values (Numeric [Some 1, Some 2, Some 3, Some 4, Some 5]))
          (Fmt ''k.'') None None]"
    by auto
  from r(1,3) have "length (marks ax') = 4"
    by (simp add: ax_or_new_def new_axes_def)
  with r(2) have in_range: "\<exists>ax'. plot fcst_yhat1 None ''ds'' ''y'' (Some 1) = Inr ax' \<and>
      length (marks ax') = 4" by blast
  from plot_overlays_then_highlight[OF wf ds y cols, of "Some 0" None "''ds''" "''y''"]
  obtain overlays0 where r0:
    "length overlays0 = 1"
    "plot fcst_yhat1 None ''ds'' ''y'' (Some 0) =
       Inl (KeyError, (ax_or_new None)\<lparr>marks := marks (ax_or_new None) @ overlays0\<rparr>)"
    by auto
  from r0 have "\<exists>e ax'. plot fcst_yhat1 None ''ds'' ''y'' (Some 0) = Inl (e, ax') \<and>
      e = KeyError \<and> length (marks ax') = 1"
    by (simp add: ax_or_new_def new_axes_def)
  with in_range show ?thesis by blast
qed

text \<open>
  The claim as stated fails for a highlight index that names no column: on the table
  with the single forecast column \<^verbatim>\<open>yhat1\<close>, highlight index 2 raises \<^verbatim>\<open>KeyError\<close> once
  the overlay is drawn, and no highlight mark is drawn.
\<close>

theorem plot_highlight_out_of_range:
  "plot fcst_yhat1 None ''ds'' ''y'' (Some 2) =
     Inl (KeyError,
          \<lparr>marks = [Plot [0, 1, 2, 3, 4] [Some 1.1, Some 2.1, Some 3.1, Some 4.1, Some 5.1]
                      (Ls ''-'') (Some ''#0072B2'') (Some 1)],
           x_label = [], y_label = [], y_percent = False\<rparr>)"
  by (simp add: plot_def fcst_yhat1_def getitem_def columns_def raising_def and_then_def
        Let_def ax_plot_def ax_or_new_def new_axes_def highlight_def composite_alpha_def
        str_int_def str_nat.simps)

section \<open>Properties of \<^verbatim>\<open>plot_forecast_component\<close>\<close>

text \<open>
  The rolling mean as pandas computes it, by padding, trailing windows and a shift, is
  the centered mean of the reference: row by row the two average the same observations.
\<close>

lemma observations_append: "observations (xs @ ys) = observations xs @ observations ys"
  by (simp add: observations_def)

lemma observations_nulls: "set xs \<subseteq> {None} \<Longrightarrow> observations xs = []"
  by (induction xs) (auto simp: observations_def)

lemma slice_nth: "drop a (take b xs) = map (\<lambda>j. xs ! j) [a..<min b (length xs)]"
proof (rule nth_equalityI)
  show "length (drop a (take b xs)) = length (map (\<lambda>j. xs ! j) [a..<min b (length xs)])"
    by (simp add: min.commute)
next
  fix i assume "i < length (drop a (take b xs))"
  then have "a + i < b" "a + i < length xs" by auto
  then show "drop a (take b xs) ! i = map (\<lambda>j. xs ! j) [a..<min b (length xs)] ! i"
    by simp
qed

lemma filter_range:
  "filter (\<lambda>j. a \<le> j \<and> j < c) [0..<n] = [a..<min c n]"
proof (induction n)
  case 0
  then show ?case by simp
next
  case (Suc n)
  consider "c \<le> n" | "c = Suc n" | "Suc n < c" by linarith
  then show ?case
  proof cases
    case 1
    with Suc show ?thesis by (simp add: min_def)
  next
    case 2
    with Suc show ?thesis by (auto simp: min_def)
  next
    case 3
    with Suc show ?thesis by (auto simp: min_def)
  qed
qed

lemma centered_window_slice:
  "centered_window w xs i = drop (i - w div 2) (take (i + (w - 1) div 2 + 1) xs)"
proof -
  have "(\<lambda>j. i \<le> j + w div 2 \<and> j \<le> i + (w - 1) div 2) =
        (\<lambda>j. i - w div 2 \<le> j \<and> j < i + (w - 1) div 2 + 1)"
    by (intro ext) auto
  then show ?thesis
    by (simp add: centered_window_def filter_range slice_nth)
qed

lemma trailing_padded_observations:
  assumes "1 \<le> w" "i < length xs"
  shows "observations (trailing_window w (xs @ replicate ((w - 1) div 2) None) ((w - 1) div 2 + i))
         = observations (centered_window w xs i)"
proof -
  let ?off = "(w - 1) div 2"
  have a: "?off + i + 1 - w = i - w div 2" using assms(1) by (simp; linarith)
  have "trailing_window w (xs @ replicate ?off None) (?off + i) =
        drop (i - w div 2) (take (i + ?off + 1) xs) @
        drop (i - w div 2 - length (take (i + ?off + 1) xs))
          (take (i + ?off + 1 - length xs) (replicate ?off None))"
    using a by (simp add: trailing_window_def add.commute)
  moreover have "set (drop (i - w div 2 - length (take (i + ?off + 1) xs))
          (take (i + ?off + 1 - length xs) (replicate ?off (None::real option)))) \<subseteq> {None}"
    by (auto simp: set_replicate_conv_if)
  ultimately show ?thesis
    by (simp add: observations_append observations_nulls centered_window_slice)
qed

lemma rolling_center_mean_reference:
  assumes "1 \<le> window"
  shows "rolling_center_mean (Numeric vs) window = Inr (centered_mean_reference (nat window) vs)"
proof -
  let ?w = "nat window"
  let ?off = "(?w - 1) div 2"
  have w: "1 \<le> ?w" using assms by simp
  have "drop ?off (rolling_trailing_mean ?w (vs @ replicate ?off None)) =
        centered_mean_reference ?w vs"
  proof (rule nth_equalityI)
    show "length (drop ?off (rolling_trailing_mean ?w (vs @ replicate ?off None))) =
          length (centered_mean_reference ?w vs)"
      by (simp add: rolling_trailing_mean_def centered_mean_reference_def)
  next
    fix i assume "i < length (drop ?off (rolling_trailing_mean ?w (vs @ replicate ?off None)))"
    then have i: "i < length vs" by (simp add: rolling_trailing_mean_def)
    have "drop ?off (rolling_trailing_mean ?w (vs @ replicate ?off None)) ! i =
          window_mean (trailing_window ?w (vs @ replicate ?off None) (?off + i))"
      using i by (simp add: rolling_trailing_mean_def)
    also have "\<dots> = window_mean (centered_window ?w vs i)"
      using trailing_padded_observations[OF w i] by (simp add: window_mean_def)
    also have "\<dots> = centered_mean_reference ?w vs ! i"
      using i by (simp add: centered_mean_reference_def)
    finally show "drop ?off (rolling_trailing_mean ?w (vs @ replicate ?off None)) ! i =
          centered_mean_reference ?w vs ! i" .
  qed
  then show ?thesis using assms by (simp add: rolling_center_mean_def Let_def)
qed

lemma draw_series_same_length:
  "length t = length y \<Longrightarrow>
   draw_series bar t y a ax =
     Inr (ax\<lparr>marks := marks ax @
        [if bar then Bar t y 1.00 (Some ''#0072B2'') a
         else Plot t y (Ls ''-'') (Some ''#0072B2'') a]\<rparr>)"
  by (simp add: draw_series_def ax_bar_def ax_plot_def broadcast_same)

text \<open>
  Claim C6. Given a rolling window length \<open>w \<ge> 1\<close> (so for 1, 3 and 7) and a numeric
  component column, \<^verbatim>\<open>plot_forecast_component\<close> first draws the underlay, over the
  timestamps of every row and with alpha 0.5, and then the raw series on top. At every
  row index \<open>i\<close> the underlay's value is the centered rolling mean with minimum period
  1: the mean of the values that are not null among the rows from \<open>i - w div 2\<close> to
  \<open>i + (w - 1) div 2\<close> that exist (fewer rows at the edges), and null when there is
  none.
\<close>

theorem rolling_underlay_centered_mean:
  assumes wf: "wf_dataframe fcst"
    and ds: "getitem fcst ''ds'' = Inr (Datetime fcst_t)"
    and col: "getitem fcst comp_name = Inr (Numeric vs)"
    and w: "1 \<le> w"
  shows "\<exists>ax' underlay raw.
     plot_forecast_component fcst comp_name plot_name ax multiplicative bar (Some w) = Inr ax' \<and>
     marks ax' = marks (ax_or_new ax) @ [underlay, raw] \<and>
     xdata underlay = fcst_t \<and> opacity underlay = Some 0.5 \<and>
     length (ydata underlay) = length vs \<and>
     (\<forall>i < length vs. ydata underlay ! i = window_mean (centered_window (nat w) vs i)) \<and>
     xdata raw = fcst_t \<and> ydata raw = vs \<and> opacity raw = None"
proof -
  let ?avg = "centered_mean_reference (nat w) vs"
  let ?under = "if bar then Bar fcst_t ?avg 1.00 (Some ''#0072B2'') (Some 0.5)
                else Plot fcst_t ?avg (Ls ''-'') (Some ''#0072B2'') (Some 0.5)"
  let ?raw = "if bar then Bar fcst_t vs 1.00 (Some ''#0072B2'') None
              else Plot fcst_t vs (Ls ''-'') (Some ''#0072B2'') None"
  let ?ax0 = "ax_or_new ax"
  have len: "length fcst_t = length vs"
    using getitem_column_length[OF wf ds col] by simp
  have len_avg: "length ?avg = length vs"
    by (simp add: centered_mean_reference_def)
  have nth_avg: "?avg ! i = window_mean (centered_window (nat w) vs i)" if "i < length vs" for i
    using that by (simp add: centered_mean_reference_def)
  define ax1 where "ax1 = ?ax0\<lparr>marks := marks ?ax0 @ [?under]\<rparr>"
  define ax2 where "ax2 = ax1\<lparr>marks := marks ax1 @ [?raw]\<rparr>"
  have d1: "draw_series bar fcst_t ?avg (Some 0.5) ?ax0 = Inr ax1"
    using len len_avg by (simp add: draw_series_same_length ax1_def)
  have d2: "draw_series bar fcst_t vs None ax1 = Inr ax2"
    using len by (simp add: draw_series_same_length ax2_def)
  have run: "plot_forecast_component fcst comp_name plot_name ax multiplicative bar (Some w)
               = Inr (finish_component plot_name comp_name multiplicative ax2)"
    using ds col d1 d2
    by (simp add: plot_forecast_component_def Let_def raising_def and_then_def
          rolling_center_mean_reference[OF w])
  have m: "marks (finish_component plot_name comp_name multiplicative ax2)
             = marks ?ax0 @ [?under, ?raw]"
    by (simp add: ax2_def ax1_def)
  show ?thesis
  proof (rule exI[of _ "finish_component plot_name comp_name multiplicative ax2"],
         rule exI[of _ ?under], rule exI[of _ ?raw], intro conjI allI impI)
    show "plot_forecast_component fcst comp_name plot_name ax multiplicative bar (Some w)
            = Inr (finish_component plot_name comp_name multiplicative ax2)" by (rule run)
    show "marks (finish_component plot_name comp_name multiplicative ax2)
            = marks ?ax0 @ [?under, ?raw]" by (rule m)
    show "xdata ?under = fcst_t" by simp
    show "opacity ?under = Some 0.5" by simp
    show "length (ydata ?under) = length vs" using len_avg by simp
    show "xdata ?raw = fcst_t" by simp
    show "ydata ?raw = vs" by simp
    show "opacity ?raw = None" by simp
  next
    fix i assume "i < length vs"
    from nth_avg[OF this] show "ydata ?under ! i = window_mean (centered_window (nat w) vs i)"
      by simp
  qed
qed

theorem rolling_underlay_centered_mean_witness:
  "\<exists>ax'. plot_forecast_component fcst_residuals ''residuals'' (Some ''Residuals'') None False
           True (Some 3) = Inr ax' \<and>
     ydata (marks ax' ! 0) = [Some 1, Some 1.5, Some 3, Some 4, Some 6] \<and>
     ydata (marks ax' ! 1) = [None, Some 1, Some 2, Some 6, None]"
proof -
  let ?vs = "[None, Some 1, Some 2, Some 6, None] :: real option list"
  have wf: "wf_dataframe fcst_residuals"
    by (simp add: wf_dataframe_def fcst_residuals_def)
  have ds: "getitem fcst_residuals ''ds'' = Inr (Datetime [0, 1, 2, 3, 4])"
    by (simp add: getitem_def fcst_residuals_def)
  have col: "getitem fcst_residuals ''residuals'' = Inr (Numeric ?vs)"
    by (simp add: getitem_def fcst_residuals_def)
  have w: "(1::int) \<le> 3" by simp
  from rolling_underlay_centered_mean[OF wf ds col w, of "Some ''Residuals''" None False True]
  obtain ax' underlay raw where r:
    "plot_forecast_component fcst_residuals ''residuals'' (Some ''Residuals'') None False
       True (Some 3) = Inr ax'"
    "marks ax' = marks (ax_or_new None) @ [underlay, raw]"
    "length (ydata underlay) = length ?vs"
    "\<forall>i < length ?vs. ydata underlay ! i = window_mean (centered_window (nat 3) ?vs i)"
    "ydata raw = ?vs"
    by blast
  have means: "map (\<lambda>i. window_mean (centered_window (nat 3) ?vs i)) [0..<5]
                 = [Some 1, Some 1.5, Some 3, Some 4, Some 6]"
    by (simp add: window_mean_def centered_window_def observations_def upt_conv_Cons Let_def)
  have l5: "length (ydata underlay) = 5" using r(3) by simp
  have "ydata underlay = map (\<lambda>i. ydata underlay ! i) [0..<length (ydata underlay)]"
    by (simp add: map_nth)
  also have "\<dots> = map (\<lambda>i. ydata underlay ! i) [0..<5]"
    by (simp only: l5)
  also have "\<dots> = map (\<lambda>i. window_mean (centered_window (nat 3) ?vs i)) [0..<5]"
    by (rule map_cong[OF refl]) (use r(4) in auto)
  finally have "ydata underlay = [Some 1, Some 1.5, Some 3, Some 4, Some 6]"
    using means by simp
  with r(1,2,5) show ?thesis
    by (auto simp: ax_or_new_def new_axes_def)
qed

section \<open>Properties of \<^verbatim>\<open>plot_lagged_weights\<close>\<close>

text \<open>
  The values the function computes are as intended. Without a focus, the weights of a
  matrix whose rows have \<open>l\<close> entries, one of them not zero, become \<open>l\<close> values that
  are not negative and sum to 1; with a focus \<open>f\<close> in \<open>1..h\<close> they are row \<open>f - 1\<close>,
  as it is.
\<close>

lemma sum_list_divide_const:
  "sum_list (map (\<lambda>x. x / c) xs) = sum_list xs / (c::real)"
  by (induction xs) (simp_all add: add_divide_distrib)

lemma divide_by_sum_values:
  assumes pos: "0 < sum_list ws" and nonneg: "\<forall>x \<in> set ws. 0 \<le> x"
  shows "length (divide_by_sum ws) = length ws"
    and "\<forall>v \<in> set (divide_by_sum ws). \<exists>x. v = Some x \<and> 0 \<le> x"
    and "sum_list (map the (divide_by_sum ws)) = 1"
proof -
  have n: "divide_by_sum ws = map (\<lambda>x. Some (x / sum_list ws)) ws"
    using pos by (simp add: divide_by_sum_def Let_def)
  show "length (divide_by_sum ws) = length ws" unfolding n by simp
  show "\<forall>v \<in> set (divide_by_sum ws). \<exists>x. v = Some x \<and> 0 \<le> x"
  proof
    fix v assume "v \<in> set (divide_by_sum ws)"
    then obtain x where x: "x \<in> set ws" "v = Some (x / sum_list ws)" unfolding n by auto
    from x(1) nonneg pos have "0 \<le> x / sum_list ws" by simp
    with x(2) show "\<exists>x. v = Some x \<and> 0 \<le> x" by blast
  qed
  have "map the (divide_by_sum ws) = map (\<lambda>x. x / sum_list ws) ws"
    unfolding n by simp
  then have "sum_list (map the (divide_by_sum ws)) = sum_list ws / sum_list ws"
    by (simp only: sum_list_divide_const)
  with pos show "sum_list (map the (divide_by_sum ws)) = 1" by simp
qed

lemma sum_abs_axis0_nonneg: "\<forall>x \<in> set (sum_abs_axis0 w). 0 \<le> x"
  by (cases w) (auto intro!: sum_list_nonneg)

lemma length_sum_abs_axis0: "length (sum_abs_axis0 (Mat rows)) = row_length rows"
  by simp

lemma length_divide_by_sum: "length (divide_by_sum ws) = length ws"
  by (simp add: divide_by_sum_def Let_def)

lemma sum_abs_axis0_positive:
  assumes "wf_matrix rows" "r \<in> set rows" "j < length r" "r ! j \<noteq> 0"
  shows "0 < sum_list (sum_abs_axis0 (Mat rows))"
proof -
  define s where "s = sum_abs_axis0 (Mat rows)"
  define c where "c = sum_list (map (\<lambda>r. \<bar>r ! j\<bar>) rows)"
  have l: "length r = row_length rows" using assms(1,2) by (simp add: wf_matrix_def)
  have "\<bar>r ! j\<bar> \<in> set (map (\<lambda>r. \<bar>r ! j\<bar>) rows)" using assms(2) by simp
  moreover have "c = 0 \<longleftrightarrow> (\<forall>x \<in> set (map (\<lambda>r. \<bar>r ! j\<bar>) rows). x = 0)"
    unfolding c_def by (rule sum_list_nonneg_eq_0_iff) auto
  ultimately have "c \<noteq> 0" using assms(4) by auto
  moreover have "c \<in> set s"
    using assms(3) l unfolding c_def s_def by auto
  moreover have nn: "\<forall>x \<in> set s. 0 \<le> x" unfolding s_def by (rule sum_abs_axis0_nonneg)
  then have "sum_list s = 0 \<longleftrightarrow> (\<forall>x \<in> set s. x = 0)"
    by (intro sum_list_nonneg_eq_0_iff) blast
  ultimately have "sum_list s \<noteq> 0" by blast
  moreover have "0 \<le> sum_list s" using nn by (intro sum_list_nonneg) blast
  ultimately show ?thesis unfolding s_def by simp
qed

lemma relevance_values:
  assumes "wf_matrix rows" "r \<in> set rows" "j < length r" "r ! j \<noteq> 0"
  shows "length (divide_by_sum (sum_abs_axis0 (Mat rows))) = row_length rows"
    and "\<forall>v \<in> set (divide_by_sum (sum_abs_axis0 (Mat rows))). \<exists>x. v = Some x \<and> 0 \<le> x"
    and "sum_list (map the (divide_by_sum (sum_abs_axis0 (Mat rows)))) = 1"
proof -
  note pos = sum_abs_axis0_positive[OF assms]
  note nn = sum_abs_axis0_nonneg[of "Mat rows"]
  show "length (divide_by_sum (sum_abs_axis0 (Mat rows))) = row_length rows"
    by (simp only: length_divide_by_sum length_sum_abs_axis0)
  show "\<forall>v \<in> set (divide_by_sum (sum_abs_axis0 (Mat rows))). \<exists>x. v = Some x \<and> 0 \<le> x"
    by (rule divide_by_sum_values(2)[OF pos nn])
  show "sum_list (map the (divide_by_sum (sum_abs_axis0 (Mat rows)))) = 1"
    by (rule divide_by_sum_values(3)[OF pos nn])
qed

lemma focus_row:
  "1 \<le> f \<Longrightarrow> f \<le> int (length rows) \<Longrightarrow>
   focus_weights (Mat rows) f = Inr (rows ! nat (f - 1))"
  by (simp add: Let_def)


text \<open>
  The bars are placed at \<^verbatim>\<open>weights.shape[0]\<close> positions, the number of horizons, and
  given one height per lag: unless the two numbers agree or one of them is 1 the
  drawing call raises and nothing is plotted. For a square matrix the relevance values
  are plotted.
\<close>

lemma plot_lagged_weights_unfold:
  "plot_lagged_weights weights comp_name focus ax =
     and_then (case focus of
                 None \<Rightarrow>
                   ax_bar (rev (map int [1..<1 + shape0 weights]))
                     (divide_by_sum (sum_abs_axis0 weights)) 1.00 (Some ''#0072B2'') None
                     (ax_or_new ax)
               | Some f \<Rightarrow>
                   raising (focus_weights weights f) (ax_or_new ax) (\<lambda>row.
                   ax_bar (rev (map int [1..<1 + shape0 weights])) (map Some row) 0.80
                     (Some ''#0072B2'') None (ax_or_new ax))) (\<lambda>ax1.
     Inr (case focus of
            None \<Rightarrow> set_y_as_percent
                     (ax1\<lparr>x_label := comp_name @ '' lag number'',
                          y_label := comp_name @ '' relevance''\<rparr>)
          | Some f \<Rightarrow> ax1\<lparr>x_label := comp_name @ '' lag number'',
                          y_label := comp_name @ '' weight ('' @ str_int f @ '')-ahead''\<rparr>))"
  unfolding plot_lagged_weights_def Let_def by (rule refl)

lemma lagged_weights_shape_mismatch:
  assumes "wf_matrix rows" "length rows \<noteq> row_length rows"
    "length rows \<noteq> 1" "row_length rows \<noteq> 1"
  shows "plot_lagged_weights (Mat rows) comp_name None ax = Inl (ValueError, ax_or_new ax)"
    and "1 \<le> f \<Longrightarrow> f \<le> int (length rows) \<Longrightarrow>
         plot_lagged_weights (Mat rows) comp_name (Some f) ax = Inl (ValueError, ax_or_new ax)"
proof -
  define lags_range where "lags_range = rev (map int [1..<1 + shape0 (Mat rows)])"
  have lr: "length lags_range = length rows"
    unfolding lags_range_def shape0.simps
    by (simp only: length_rev length_map length_upt add_diff_cancel_left')
  have n: "length (divide_by_sum (sum_abs_axis0 (Mat rows))) = row_length rows"
    by (simp only: length_divide_by_sum length_sum_abs_axis0)
  have bar: "length h = row_length rows \<Longrightarrow>
      ax_bar lags_range h w c a ax0 = Inl (ValueError, ax0)" for h w c a ax0
    using assms(2,3,4) lr by (simp add: ax_bar_def)
  show "plot_lagged_weights (Mat rows) comp_name None ax = Inl (ValueError, ax_or_new ax)"
    unfolding plot_lagged_weights_unfold lags_range_def[symmetric]
    by (simp only: bar[OF n] and_then_def option.case sum.case)
  assume f: "1 \<le> f" "f \<le> int (length rows)"
  then have "rows ! nat (f - 1) \<in> set rows" by simp
  then have "length (map Some (rows ! nat (f - 1))) = row_length rows"
    using assms(1) by (simp add: wf_matrix_def)
  from bar[OF this] show "plot_lagged_weights (Mat rows) comp_name (Some f) ax
               = Inl (ValueError, ax_or_new ax)"
    unfolding plot_lagged_weights_unfold lags_range_def[symmetric]
    by (simp only: focus_row[OF f] raising_def and_then_def option.case sum.case)
qed

lemma lagged_weights_square:
  assumes "wf_matrix rows" "length rows = row_length rows"
  shows "plot_lagged_weights (Mat rows) comp_name None ax =
     Inr (set_y_as_percent
       ((ax_or_new ax)\<lparr>marks := marks (ax_or_new ax) @
           [Bar (rev (map int [1..<1 + length rows]))
              (divide_by_sum (sum_abs_axis0 (Mat rows))) 1.00 (Some ''#0072B2'') None],
          x_label := comp_name @ '' lag number'',
          y_label := comp_name @ '' relevance''\<rparr>))"
proof -
  define lags_range where "lags_range = rev (map int [1..<1 + shape0 (Mat rows)])"
  define heights where "heights = divide_by_sum (sum_abs_axis0 (Mat rows))"
  have lr: "length lags_range = length rows"
    unfolding lags_range_def shape0.simps
    by (simp only: length_rev length_map length_upt add_diff_cancel_left')
  have n: "length heights = length rows"
    unfolding heights_def using assms(2) by (simp only: length_divide_by_sum length_sum_abs_axis0)
  have bar: "ax_bar lags_range heights w c a ax0 =
        Inr (ax0\<lparr>marks := marks ax0 @ [Bar lags_range heights w c a]\<rparr>)" for w c a ax0
    using n lr by (simp add: ax_bar_def broadcast_same)
  have "plot_lagged_weights (Mat rows) comp_name None ax =
     Inr (set_y_as_percent
       ((ax_or_new ax)\<lparr>marks := marks (ax_or_new ax) @
           [Bar lags_range heights 1.00 (Some ''#0072B2'') None],
          x_label := comp_name @ '' lag number'',
          y_label := comp_name @ '' relevance''\<rparr>))"
    unfolding plot_lagged_weights_unfold lags_range_def[symmetric] heights_def[symmetric]
    by (simp add: bar and_then_def)
  then show ?thesis by (simp add: lags_range_def heights_def del: sum_abs_axis0.simps)
qed

text \<open>
  Claim C2, which the code breaks. For the weights of 3 horizons over 4 lags and no
  focus, \<^verbatim>\<open>plot_lagged_weights\<close> plots no value array of length 4: it asks for bars at 3
  positions with 4 heights and raises \<^verbatim>\<open>ValueError\<close> on axes left empty.
\<close>

theorem lagged_weights_3x4_relevance_raises:
  "plot_lagged_weights weights_3x4 ''AR'' None None = Inl (ValueError, new_axes)"
  by (simp add: plot_lagged_weights_def weights_3x4_def Let_def ax_bar_def and_then_def
        divide_by_sum_def ax_or_new_def)

text \<open>
  Claim C7, which the code breaks. For the weights of 3 horizons over 4 lags and focus
  2, \<^verbatim>\<open>plot_lagged_weights\<close> does not plot row 1: it asks for bars at 3 positions with the
  4 heights of that row and raises \<^verbatim>\<open>ValueError\<close> on axes left empty.
\<close>

theorem lagged_weights_3x4_focus_raises:
  "plot_lagged_weights weights_3x4 ''AR'' (Some 2) None = Inl (ValueError, new_axes)"
  by (simp add: plot_lagged_weights_def weights_3x4_def Let_def ax_bar_def and_then_def
        raising_def ax_or_new_def)

section \<open>Properties of \<^verbatim>\<open>plot_parameters\<close>\<close>

lemma lower_seasonality: "lower ''seasonality'' = ''seasonality''"
  by (simp add: lower_def lower_char_def)

lemma lower_Trend: "lower ''Trend'' = ''trend''"
  by (simp add: lower_def lower_char_def)

lemma plot_panels_length:
  "plot_panels m ws ys cs = Inr axs \<Longrightarrow> length axs = length cs"
  by (induction cs arbitrary: axs) (auto split: sum.splits prod.splits)

lemma parameter_components_nonempty: "parameter_components m f \<noteq> []"
  by (simp add: parameter_components_def Let_def)

text \<open>
  The descriptors named \<^verbatim>\<open>seasonality\<close> are those built from the configured
  seasonalities: each carries a name that has a period.
\<close>

lemma seasonality_component:
  assumes "descr \<in> set (parameter_components m f)" "key_plot_name descr = ''seasonality''"
  shows "\<exists>sc name p. season_config m = Some sc \<and> map_of (periods sc) name = Some p \<and>
           descr = \<lparr>key_plot_name = ''seasonality'', key_comp_name = Some name,
                     key_weights = None, key_focus = None\<rparr>"
proof -
  have lw: "d \<in> set (lagged_weights_components n w f) \<Longrightarrow> key_plot_name d \<noteq> ''seasonality''"
    for d n w
    by (auto simp: lagged_weights_components_def split: option.splits)
  from assms have "descr \<in> set (configured_components m f)"
    by (auto simp: parameter_components_def Let_def split: if_splits)
  with assms(2) lw
  have "\<exists>sc name. season_config m = Some sc \<and> name \<in> set (map fst (periods sc)) \<and>
    descr = \<lparr>key_plot_name = ''seasonality'', key_comp_name = Some name,
              key_weights = None, key_focus = None\<rparr>"
    by (cases "season_config m")
       (auto simp: configured_components_def split: if_splits option.splits)
  then obtain sc name where sc: "season_config m = Some sc"
    "name \<in> set (map fst (periods sc))"
    "descr = \<lparr>key_plot_name = ''seasonality'', key_comp_name = Some name,
              key_weights = None, key_focus = None\<rparr>"
    by blast
  from sc(2) obtain p where "map_of (periods sc) name = Some p"
    by (metis map_of_eq_None_iff not_Some_eq set_map)
  with sc show ?thesis by blast
qed

lemma seasonality_panel:
  assumes "season_config m = Some sc" "map_of (periods sc) name = Some p"
  shows "plot_parameter_panel m ws ys
           \<lparr>key_plot_name = ''seasonality'', key_comp_name = Some name,
            key_weights = None, key_focus = None\<rparr> ax =
         (if lower name = ''weekly'' \<or> p = 7 then plot_weekly m (Some ax) ws name
          else if lower name = ''yearly'' \<or> p = 365.25 then plot_yearly m (Some ax) ys name
          else plot_custom_season m (Some ax) (Some name))"
  using assms
  by (simp add: plot_parameter_panel_def lower_seasonality plot_seasonality_def raising_def
        key_lookup_def season_mode_def py_or_def period_equals_def)

lemma empty_config_components:
  assumes "n_changepoints m \<le> 0" "n_lags m \<le> 0"
    "season_config m = None \<or> (\<exists>sc. season_config m = Some sc \<and> periods sc = [])"
    "covar_config m = None \<or> covar_config m = Some []"
  shows "configured_components m f = []"
  using assms by (auto simp: configured_components_def)

lemma trend_panel:
  "plot_parameter_panel m ws ys \<lparr>key_plot_name = ''Trend'', key_comp_name = None,
                             key_weights = None, key_focus = None\<rparr> new_axes =
   Inr \<lparr>marks = [Plot [ds_shift m, ds_shift m + ds_scale m]
                    [Some (trend_m0 m), Some (trend_m0 m + trend_k0 m)] (Ls ''-'')
                    (Some ''#0072B2'') None],
        x_label = ''ds'', y_label = ''Trend'', y_percent = False\<rparr>"
  by (simp add: plot_parameter_panel_def lower_Trend plot_trend_0_def Let_def ax_plot_def
        and_then_def ax_or_new_def new_axes_def)

lemma trend_not_multiplicative:
  "\<not> multiplicative_panel m \<lparr>key_plot_name = ''Trend'', key_comp_name = None,
                             key_weights = None, key_focus = None\<rparr>"
  by (simp add: multiplicative_panel_def lower_Trend)

text \<open>
  Claim C8. In the parameter panel dispatcher every seasonality descriptor carries the
  name of a configured seasonality, and its panel is the weekly renderer's if the name
  in lower case is \<^verbatim>\<open>weekly\<close> or the period equals 7; else the yearly renderer's if the
  name in lower case is \<^verbatim>\<open>yearly\<close> or the period equals 365.25; else the custom
  renderer's, which raises \<^verbatim>\<open>NotImplementedError\<close> for all inputs.
\<close>

theorem seasonality_routing:
  assumes "descr \<in> set (parameter_components m forecast_in_focus)"
    and "key_plot_name descr = ''seasonality''"
  shows "\<exists>sc name p.
     season_config m = Some sc \<and> key_comp_name descr = Some name \<and>
     map_of (periods sc) name = Some p \<and>
     plot_parameter_panel m weekly_start yearly_start descr ax =
       (if lower name = ''weekly'' \<or> p = 7
        then plot_weekly m (Some ax) weekly_start name
        else if lower name = ''yearly'' \<or> p = 365.25
        then plot_yearly m (Some ax) yearly_start name
        else plot_custom_season m (Some ax) (Some name)) \<and>
     (\<forall>m' ax' name'. plot_custom_season m' ax' name' = Inl (NotImplementedError, ax_or_new ax'))"
proof -
  from seasonality_component[OF assms] obtain sc name p where c:
    "season_config m = Some sc" "map_of (periods sc) name = Some p"
    "descr = \<lparr>key_plot_name = ''seasonality'', key_comp_name = Some name,
              key_weights = None, key_focus = None\<rparr>" by blast
  have "plot_parameter_panel m weekly_start yearly_start descr ax =
       (if lower name = ''weekly'' \<or> p = 7
        then plot_weekly m (Some ax) weekly_start name
        else if lower name = ''yearly'' \<or> p = 365.25
        then plot_yearly m (Some ax) yearly_start name
        else plot_custom_season m (Some ax) (Some name))"
    unfolding c(3) by (rule seasonality_panel[OF c(1,2)])
  moreover have "key_comp_name descr = Some name" by (simp add: c(3))
  moreover have "\<forall>m' ax' name'.
      plot_custom_season m' ax' name' = Inl (NotImplementedError, ax_or_new ax')"
    by (simp add: plot_custom_season_def)
  ultimately show ?thesis using c(1,2) by blast
qed

theorem seasonality_routing_witness:
  "plot_parameter_panel model_seasonal 0 0
     \<lparr>key_plot_name = ''seasonality'', key_comp_name = Some ''monthly'',
      key_weights = None, key_focus = None\<rparr> new_axes
   = Inl (NotImplementedError, new_axes)"
proof -
  let ?d = "\<lparr>key_plot_name = ''seasonality'', key_comp_name = Some ''monthly'',
             key_weights = None, key_focus = None\<rparr>"
  have mem: "?d \<in> set (parameter_components model_seasonal None)"
    by (simp add: parameter_components_def configured_components_def model_seasonal_def)
  have nm: "key_plot_name ?d = ''seasonality''" by simp
  from seasonality_routing[OF mem nm, of 0 0 new_axes] obtain sc name p where r:
    "season_config model_seasonal = Some sc" "key_comp_name ?d = Some name"
    "map_of (periods sc) name = Some p"
    "plot_parameter_panel model_seasonal 0 0 ?d new_axes =
       (if lower name = ''weekly'' \<or> p = 7
        then plot_weekly model_seasonal (Some new_axes) 0 name
        else if lower name = ''yearly'' \<or> p = 365.25
        then plot_yearly model_seasonal (Some new_axes) 0 name
        else plot_custom_season model_seasonal (Some new_axes) (Some name))"
    "\<forall>m' ax' name'. plot_custom_season m' ax' name' = Inl (NotImplementedError, ax_or_new ax')"
    by blast
  from r(2) have name: "name = ''monthly''" by simp
  from r(1) have sc: "periods sc = [(''weekly'', 7), (''annual'', 365.25), (''monthly'', 30.5)]"
    by (auto simp: model_seasonal_def)
  from r(3) have p: "p = 30.5" unfolding sc name by simp
  have low: "lower ''monthly'' = ''monthly''" by (simp add: lower_def lower_char_def)
  show ?thesis
    unfolding r(4) name p low using r(5) by (simp add: ax_or_new_def)
qed

text \<open>
  Claim C10. The descriptor list \<^verbatim>\<open>plot_parameters\<close> renders is never empty, so a
  figure it returns has at least one panel. When the model has no changepoints, no
  configured seasonality, no lags and no covariates, the list built from the
  configuration is empty, the single descriptor \<^verbatim>\<open>Trend\<close> is appended, and the call
  returns one panel: the two-point trend line from the start of the training period at
  the intercept to its end at intercept plus slope.
\<close>

theorem parameters_trend_fallback:
  "parameter_components m forecast_in_focus \<noteq> [] \<and>
   (\<forall>panels. plot_parameters m forecast_in_focus weekly_start yearly_start = Inr panels
      \<longrightarrow> 1 \<le> length panels) \<and>
   (n_changepoints m \<le> 0 \<and> n_lags m \<le> 0 \<and>
    (season_config m = None \<or> (\<exists>sc. season_config m = Some sc \<and> periods sc = [])) \<and>
    (covar_config m = None \<or> covar_config m = Some [])
    \<longrightarrow>
      configured_components m forecast_in_focus = [] \<and>
      parameter_components m forecast_in_focus =
        [\<lparr>key_plot_name = ''Trend'', key_comp_name = None, key_weights = None,
          key_focus = None\<rparr>] \<and>
      plot_parameters m forecast_in_focus weekly_start yearly_start =
        Inr [\<lparr>marks = [Plot [ds_shift m, ds_shift m + ds_scale m]
                          [Some (trend_m0 m), Some (trend_m0 m + trend_k0 m)] (Ls ''-'')
                          (Some ''#0072B2'') None],
              x_label = ''ds'', y_label = ''Trend'', y_percent = False\<rparr>])"
proof (intro conjI allI impI)
  show "parameter_components m forecast_in_focus \<noteq> []"
    by (rule parameter_components_nonempty)
next
  fix panels
  assume "plot_parameters m forecast_in_focus weekly_start yearly_start = Inr panels"
  then have "length panels = length (parameter_components m forecast_in_focus)"
    unfolding plot_parameters_def by (rule plot_panels_length)
  with parameter_components_nonempty[of m forecast_in_focus] show "1 \<le> length panels"
    by (cases "parameter_components m forecast_in_focus") auto
next
  assume h: "n_changepoints m \<le> 0 \<and> n_lags m \<le> 0 \<and>
    (season_config m = None \<or> (\<exists>sc. season_config m = Some sc \<and> periods sc = [])) \<and>
    (covar_config m = None \<or> covar_config m = Some [])"
  then have e: "configured_components m forecast_in_focus = []"
    by (intro empty_config_components) auto
  then show "configured_components m forecast_in_focus = []" .
  from e show pc: "parameter_components m forecast_in_focus =
        [\<lparr>key_plot_name = ''Trend'', key_comp_name = None, key_weights = None,
          key_focus = None\<rparr>]"
    by (simp add: parameter_components_def)
  show "plot_parameters m forecast_in_focus weekly_start yearly_start =
        Inr [\<lparr>marks = [Plot [ds_shift m, ds_shift m + ds_scale m]
                          [Some (trend_m0 m), Some (trend_m0 m + trend_k0 m)] (Ls ''-'')
                          (Some ''#0072B2'') None],
              x_label = ''ds'', y_label = ''Trend'', y_percent = False\<rparr>]"
    by (simp add: plot_parameters_def pc trend_panel trend_not_multiplicative)
qed

theorem parameters_trend_fallback_witness:
  "plot_parameters model_bare None 0 0 =
     Inr [\<lparr>marks = [Plot [100, 150] [Some 0.5, Some 0.75] (Ls ''-'') (Some ''#0072B2'') None],
           x_label = ''ds'', y_label = ''Trend'', y_percent = False\<rparr>]"
proof -
  have h: "n_changepoints model_bare \<le> 0 \<and> n_lags model_bare \<le> 0 \<and>
    (season_config model_bare = None \<or>
       (\<exists>sc. season_config model_bare = Some sc \<and> periods sc = [])) \<and>
    (covar_config model_bare = None \<or> covar_config model_bare = Some [])"
    by (simp add: model_bare_def model_seasonal_def)
  from parameters_trend_fallback[of model_bare None 0 0] h
  have "plot_parameters model_bare None 0 0 =
        Inr [\<lparr>marks = [Plot [ds_shift model_bare, ds_shift model_bare + ds_scale model_bare]
                          [Some (trend_m0 model_bare),
                           Some (trend_m0 model_bare + trend_k0 model_bare)] (Ls ''-'')
                          (Some ''#0072B2'') None],
              x_label = ''ds'', y_label = ''Trend'', y_percent = False\<rparr>]"
    by blast
  then show ?thesis by (simp add: model_bare_def model_seasonal_def)
qed

end
